theory Spec2Isabelle
  imports Complex_Main "HOL-Library.Log_Nat"
begin

section \<open>Python floats\<close>

text \<open>
  A Python \<open>float\<close> is an IEEE 754 binary64 value. The finite ones are modelled by the
  rational number they denote (the two zeros are one value: \<open>==\<close>, \<open><=\<close> and \<open>int()\<close>
  do not tell them apart); the infinities and NaN are constructors of their own.
  Every arithmetic result is the exact rational result rounded to the nearest binary64
  value, ties to the even significand (\<open>round_binary64\<close>), and becomes an infinity
  when the rounded magnitude exceeds the largest finite double.
\<close>

datatype pyfloat = Float rat | PosInf | NegInf | NaN

definition round_half_even :: "rat \<Rightarrow> int" where
  "round_half_even x =
     (let f = \<lfloor>x\<rfloor>; d = x - of_int f
      in if d < 1 / 2 then f else if 1 / 2 < d then f + 1 else if even f then f else f + 1)"

text \<open>\<open>ilog2 x\<close> is the binary exponent of a positive rational: \<open>2^e \<le> x < 2^(e+1)\<close>.\<close>

definition ilog2 :: "rat \<Rightarrow> int" where
  "ilog2 x =
     (let (p, q) = quotient_of x; d = bitlen p - bitlen q
      in if 2 powi d \<le> x then d else d - 1)"

text \<open>
  Rounding to 53 significant bits; below the smallest normal exponent \<open>-1022\<close> the
  spacing stays \<open>2^(-1074)\<close> (subnormal numbers).
\<close>

definition round_binary64 :: "rat \<Rightarrow> rat" where
  "round_binary64 x =
     (if x = 0 then 0
      else let e = max (ilog2 \<bar>x\<bar>) (- 1022); u = 2 powi (e - 52)
           in of_int (round_half_even (x / u)) * u)"

definition max_double :: rat where
  "max_double = (2 ^ 53 - 1) * 2 ^ 971"

definition to_pyfloat :: "rat \<Rightarrow> pyfloat" where
  "to_pyfloat r =
     (let y = round_binary64 r
      in if max_double < y then PosInf else if y < - max_double then NegInf else Float y)"

text \<open>A decimal literal such as \<open>327.6\<close> denotes the double nearest to it.\<close>

definition float_literal :: "rat \<Rightarrow> pyfloat" where
  "float_literal r = to_pyfloat r"

fun float_neg :: "pyfloat \<Rightarrow> pyfloat" where
  "float_neg (Float a) = Float (- a)"
| "float_neg PosInf = NegInf"
| "float_neg NegInf = PosInf"
| "float_neg NaN = NaN"

fun float_le :: "pyfloat \<Rightarrow> pyfloat \<Rightarrow> bool" where
  "float_le NaN _ = False"
| "float_le _ NaN = False"
| "float_le (Float a) (Float b) = (a \<le> b)"
| "float_le NegInf _ = True"
| "float_le _ PosInf = True"
| "float_le PosInf _ = False"
| "float_le _ NegInf = False"

fun float_mul :: "pyfloat \<Rightarrow> pyfloat \<Rightarrow> pyfloat" where
  "float_mul NaN _ = NaN"
| "float_mul _ NaN = NaN"
| "float_mul (Float a) (Float b) = to_pyfloat (a * b)"
| "float_mul (Float a) PosInf = (if a = 0 then NaN else if 0 < a then PosInf else NegInf)"
| "float_mul (Float a) NegInf = (if a = 0 then NaN else if 0 < a then NegInf else PosInf)"
| "float_mul PosInf (Float b) = (if b = 0 then NaN else if 0 < b then PosInf else NegInf)"
| "float_mul NegInf (Float b) = (if b = 0 then NaN else if 0 < b then NegInf else PosInf)"
| "float_mul PosInf PosInf = PosInf"
| "float_mul PosInf NegInf = NegInf"
| "float_mul NegInf PosInf = NegInf"
| "float_mul NegInf NegInf = PosInf"

section \<open>Exceptions\<close>

text \<open>
  The exception classes that the modelled code can raise or meet, each with the text
  \<open>str(e)\<close> gives. \<open>Exception\<close> is the base class the client raises itself;
  \<open>ModbusException\<close> stands for whatever the pymodbus transport raises.
\<close>

datatype exception =
    ValueError string
  | OverflowError string
  | ZeroDivisionError string
  | AttributeError string
  | IndexError string
  | TypeError string
  | ModbusException string
  | Exception string

fun str :: "exception \<Rightarrow> string" where
  "str (ValueError m) = m"
| "str (OverflowError m) = m"
| "str (ZeroDivisionError m) = m"
| "str (AttributeError m) = m"
| "str (IndexError m) = m"
| "str (TypeError m) = m"
| "str (ModbusException m) = m"
| "str (Exception m) = m"

text \<open>\<open>float(i)\<close> for a Python int, as the operators do before mixing it with a float.\<close>

definition float_of_int :: "int \<Rightarrow> exception + pyfloat" where
  "float_of_int i =
     (let y = round_binary64 (of_int i)
      in if max_double < \<bar>y\<bar> then Inl (OverflowError ''int too large to convert to float'')
         else Inr (Float y))"

fun float_truediv :: "pyfloat \<Rightarrow> pyfloat \<Rightarrow> exception + pyfloat" where
  "float_truediv x (Float b) =
     (if b = 0 then Inl (ZeroDivisionError ''float division by zero'')
      else case x of
             Float a \<Rightarrow> Inr (to_pyfloat (a / b))
           | PosInf \<Rightarrow> Inr (if 0 < b then PosInf else NegInf)
           | NegInf \<Rightarrow> Inr (if 0 < b then NegInf else PosInf)
           | NaN \<Rightarrow> Inr NaN)"
| "float_truediv (Float a) PosInf = Inr (Float 0)"
| "float_truediv (Float a) NegInf = Inr (Float 0)"
| "float_truediv x y = Inr NaN"

text \<open>\<open>i / x\<close> with an int on the left and a float on the right.\<close>

definition int_truediv_float :: "int \<Rightarrow> pyfloat \<Rightarrow> exception + pyfloat" where
  "int_truediv_float i x =
     (case float_of_int i of Inl e \<Rightarrow> Inl e | Inr f \<Rightarrow> float_truediv f x)"

text \<open>\<open>int(x)\<close> truncates toward zero and refuses the non-finite values.\<close>

fun int_of_float :: "pyfloat \<Rightarrow> exception + int" where
  "int_of_float (Float r) = Inr (if 0 \<le> r then \<lfloor>r\<rfloor> else \<lceil>r\<rceil>)"
| "int_of_float PosInf = Inl (OverflowError ''cannot convert float infinity to integer'')"
| "int_of_float NegInf = Inl (OverflowError ''cannot convert float infinity to integer'')"
| "int_of_float NaN = Inl (ValueError ''cannot convert float NaN to integer'')"

section \<open>Register codec\<close>

text \<open>\<open>R4DCB08Client.decode_temperature\<close> in \<open>r4dcb08_cli.py\<close>.\<close>

definition decode_temperature :: "int \<Rightarrow> exception + pyfloat option" where
  "decode_temperature raw_value =
     (if raw_value = 0x8000 then Inr None
      else let signed_value = (if raw_value > 32767 then raw_value - 65536 else raw_value)
           in case int_truediv_float signed_value (float_literal 10) of
                Inl e \<Rightarrow> Inl e
              | Inr t \<Rightarrow> Inr (Some t))"

text \<open>The module-level \<open>decode_temperature\<close> of \<open>modbus_py.py\<close>, written out again there.\<close>

definition modbus_py_decode_temperature :: "int \<Rightarrow> exception + pyfloat option" where
  "modbus_py_decode_temperature raw_value =
     (if raw_value = 0x8000 then Inr None
      else let signed_value = (if raw_value > 32767 then raw_value - 65536 else raw_value)
           in case int_truediv_float signed_value (float_literal 10) of
                Inl e \<Rightarrow> Inl e
              | Inr t \<Rightarrow> Inr (Some t))"

text \<open>
  \<open>R4DCB08Client.encode_temperature\<close>: \<open>int(temperature * 10)\<close>, where the int \<open>10\<close>
  becomes the float \<open>10.0\<close> exactly.
\<close>

definition encode_temperature :: "pyfloat \<Rightarrow> exception + int" where
  "encode_temperature temperature =
     (case int_of_float (float_mul temperature (Float 10)) of
        Inl e \<Rightarrow> Inl e
      | Inr raw_value \<Rightarrow> Inr (if raw_value < 0 then raw_value + 65536 else raw_value))"

section \<open>Text formatting\<close>

text \<open>\<open>str(i)\<close> of a Python int, as an f-string inserts it.\<close>

function str_nat :: "nat \<Rightarrow> string" where
  "str_nat n =
     (if n < 10 then [char_of (48 + n)]
      else str_nat (n div 10) @ [char_of (48 + n mod 10)])"
  by pat_completeness auto
termination
  by (relation "measure id") auto

declare str_nat.simps [simp del]

definition str_int :: "int \<Rightarrow> string" where
  "str_int i = (if i < 0 then ''-'' @ str_nat (nat (- i)) else str_nat (nat i))"

section \<open>The transport\<close>

text \<open>
  The pymodbus serial client is outside the repository. What the device client needs of
  it is a bus that takes one request at a time and answers it: the request raises
  (\<open>Raises\<close>, with the text of the exception), or returns a response whose
  \<open>isError()\<close> is true (\<open>ErrorResponse\<close>, with the text \<open>str(result)\<close> gives), or
  returns a good response with its payload. The bus keeps the requests it was sent, oldest
  first; its answers may depend on them.
\<close>

datatype call =
    ReadHoldingRegisters int int int
  | WriteRegister int int int

datatype 'a response = Raises string | ErrorResponse string | Response 'a

record bus =
  calls :: "call list"
  read_reply :: "call list \<Rightarrow> call \<Rightarrow> int list response"
  write_reply :: "call list \<Rightarrow> call \<Rightarrow> unit response"

text \<open>
  The two client methods, as every pymodbus release that knows the keyword \<open>device_id\<close>
  declares them:
  \<^verbatim>\<open>def read_holding_registers(self, address, *, count=1, device_id=1, ...)\<close> and
  \<^verbatim>\<open>def write_register(self, address, value, *, device_id=1, ...)\<close>.
  The parameters after the star are keyword-only. A call is modelled by the list of its
  positional arguments and the keyword arguments it gives; Python binds them before the
  body of the method runs, and a call that does not fit the signature raises
  \<open>TypeError\<close> without a request being made.
\<close>

record read_keywords =
  count_kw :: "int option"
  device_id_kw :: "int option"

record write_keywords =
  write_device_id_kw :: "int option"

text \<open>
  The text of the \<open>TypeError\<close> for too many positional arguments; the counts include
  \<open>self\<close>.
\<close>

definition too_many_positional :: "string \<Rightarrow> nat \<Rightarrow> nat \<Rightarrow> nat \<Rightarrow> string" where
  "too_many_positional qualname takes given kwonly_given =
     qualname @ ''() takes '' @ str_nat takes @ '' positional argument''
       @ (if takes = 1 then [] else ''s'') @ '' but '' @ str_nat given
       @ (if kwonly_given = 0 then []
          else '' positional argument'' @ (if given = 1 then [] else ''s'')
               @ '' (and '' @ str_nat kwonly_given @ '' keyword-only argument''
               @ (if kwonly_given = 1 then [] else ''s'') @ '')'')
       @ (if given = 1 \<and> kwonly_given = 0 then '' was'' else '' were'') @ '' given''"

definition read_holding_registers ::
    "int list \<Rightarrow> read_keywords \<Rightarrow> bus \<Rightarrow> (exception + int list response) \<times> bus" where
  "read_holding_registers args kw b =
     (case args of
        [] \<Rightarrow>
          (Inl (TypeError (''ModbusClientMixin.read_holding_registers() missing 1 required ''
                           @ ''positional argument: '' @ [CHR 0x27] @ ''address'' @ [CHR 0x27])), b)
      | [addr] \<Rightarrow>
          (let c = ReadHoldingRegisters addr
                     (case count_kw kw of None \<Rightarrow> 1 | Some count \<Rightarrow> count)
                     (case device_id_kw kw of None \<Rightarrow> 1 | Some device_id \<Rightarrow> device_id)
           in (Inr (read_reply b (calls b) c), b\<lparr>calls := calls b @ [c]\<rparr>))
      | addr # extra # others \<Rightarrow>
          (Inl (TypeError (too_many_positional ''ModbusClientMixin.read_holding_registers'' 2
                             (length args + 1)
                             (length (filter (\<lambda>k. k \<noteq> None) [count_kw kw, device_id_kw kw])))),
           b))"

definition write_register ::
    "int list \<Rightarrow> write_keywords \<Rightarrow> bus \<Rightarrow> (exception + unit response) \<times> bus" where
  "write_register args kw b =
     (case args of
        [] \<Rightarrow>
          (Inl (TypeError (''ModbusClientMixin.write_register() missing 2 required positional ''
                           @ ''arguments: '' @ [CHR 0x27] @ ''address'' @ [CHR 0x27] @ '' and ''
                           @ [CHR 0x27] @ ''value'' @ [CHR 0x27])), b)
      | [addr] \<Rightarrow>
          (Inl (TypeError (''ModbusClientMixin.write_register() missing 1 required positional ''
                           @ ''argument: '' @ [CHR 0x27] @ ''value'' @ [CHR 0x27])), b)
      | [addr, val] \<Rightarrow>
          (let c = WriteRegister addr val
                     (case write_device_id_kw kw of None \<Rightarrow> 1 | Some device_id \<Rightarrow> device_id)
           in (Inr (write_reply b (calls b) c), b\<lparr>calls := calls b @ [c]\<rparr>))
      | addr # val # extra # others \<Rightarrow>
          (Inl (TypeError (too_many_positional ''ModbusClientMixin.write_register'' 3
                             (length args + 1)
                             (length (filter (\<lambda>k. k \<noteq> None) [write_device_id_kw kw])))),
           b))"

text \<open>
  The request of \<open>main\<close> in \<open>modbus_py.py\<close>:
  \<open>client.read_holding_registers(0, count=8, device_id=device_address)\<close> with
  \<open>device_address = 1\<close>.
\<close>

definition modbus_py_main_read :: "bus \<Rightarrow> (exception + int list response) \<times> bus" where
  "modbus_py_main_read b =
     (let device_address = 1
      in read_holding_registers [0] \<lparr>count_kw = Some 8, device_id_kw = Some device_address\<rparr> b)"

section \<open>The device client\<close>

record modbus_serial_client =
  serial_port :: string
  serial_baudrate :: int
  serial_parity :: char
  serial_stopbits :: int
  serial_bytesize :: int
  serial_timeout :: pyfloat

record r4dcb08_client =
  port :: string
  address :: int
  baudrate :: int
  timeout :: pyfloat
  client :: "modbus_serial_client option"

text \<open>\<open>R4DCB08Client.__init__\<close>: the transport handle starts as \<open>None\<close>.\<close>

definition init :: "string \<Rightarrow> int \<Rightarrow> int \<Rightarrow> pyfloat \<Rightarrow> r4dcb08_client" where
  "init p a br t = \<lparr>port = p, address = a, baudrate = br, timeout = t, client = None\<rparr>"

text \<open>
  \<open>R4DCB08Client.connect\<close>. What opening the serial port does is the environment's
  choice: the constructor raises, or \<open>connect()\<close> of the new handle raises, or it
  returns a boolean. The handle is stored as soon as the constructor has returned.
  (The message printed on an exception is not modelled.)
\<close>

datatype connect_outcome = ConstructorRaises string | ConnectRaises string | ConnectReturns bool

definition connect :: "r4dcb08_client \<Rightarrow> connect_outcome \<Rightarrow> bool \<times> r4dcb08_client" where
  "connect self outcome =
     (let handle = \<lparr>serial_port = port self, serial_baudrate = baudrate self,
                     serial_parity = CHR ''N'', serial_stopbits = 1, serial_bytesize = 8,
                     serial_timeout = timeout self\<rparr>
      in case outcome of
           ConstructorRaises m \<Rightarrow> (False, self)
         | ConnectRaises m \<Rightarrow> (False, self\<lparr>client := Some handle\<rparr>)
         | ConnectReturns ok \<Rightarrow> (ok, self\<lparr>client := Some handle\<rparr>))"

text \<open>Looking up a method on \<open>None\<close> raises \<open>AttributeError\<close>.\<close>

definition none_has_no_attribute :: "string \<Rightarrow> exception" where
  "none_has_no_attribute name =
     AttributeError ([CHR 0x27] @ ''NoneType'' @ [CHR 0x27] @ '' object has no attribute ''
                     @ [CHR 0x27] @ name @ [CHR 0x27])"

text \<open>
  \<open>except Exception as e: raise Exception(f"<prefix>{e}")\<close>: whatever the \<open>try\<close> block
  raised leaves the method as a plain \<open>Exception\<close>.
\<close>

definition reraise :: "string \<Rightarrow> exception + 'a \<Rightarrow> exception + 'a" where
  "reraise prefix r =
     (case r of Inl e \<Rightarrow> Inl (Exception (prefix @ str e)) | Inr v \<Rightarrow> Inr v)"

text \<open>
  The first two statements of the three reading \<open>try\<close> blocks:
  \<open>result = self.client.read_holding_registers(addr, count, device_id=self.address)\<close>,
  with the count as second positional argument, and
  \<open>if result.isError(): raise Exception(f"Modbus error: {result}")\<close>.
\<close>

definition read_registers ::
    "r4dcb08_client \<Rightarrow> int \<Rightarrow> int \<Rightarrow> bus \<Rightarrow> (exception + int list) \<times> bus" where
  "read_registers self addr count b =
     (case client self of
        None \<Rightarrow> (Inl (none_has_no_attribute ''read_holding_registers''), b)
      | Some handle \<Rightarrow>
          (case read_holding_registers [addr, count]
                  \<lparr>count_kw = None, device_id_kw = Some (address self)\<rparr> b of
             (Inl e, b') \<Rightarrow> (Inl e, b')
           | (Inr (Raises m), b') \<Rightarrow> (Inl (ModbusException m), b')
           | (Inr (ErrorResponse d), b') \<Rightarrow> (Inl (Exception (''Modbus error: '' @ d)), b')
           | (Inr (Response registers), b') \<Rightarrow> (Inr registers, b')))"

text \<open>
  \<open>[self.decode_temperature(raw) for raw in result.registers]\<close>: in order, and the
  first exception ends the comprehension.
\<close>

fun decode_registers :: "int list \<Rightarrow> exception + pyfloat option list" where
  "decode_registers [] = Inr []"
| "decode_registers (raw # rest) =
     (case decode_temperature raw of
        Inl e \<Rightarrow> Inl e
      | Inr t \<Rightarrow> (case decode_registers rest of Inl e \<Rightarrow> Inl e | Inr ts \<Rightarrow> Inr (t # ts)))"

definition read_all_temperatures ::
    "r4dcb08_client \<Rightarrow> bus \<Rightarrow> (exception + pyfloat option list) \<times> bus" where
  "read_all_temperatures self b =
     (case read_registers self 0 8 b of
        (Inl e, b') \<Rightarrow> (reraise ''Failed to read temperatures: '' (Inl e), b')
      | (Inr registers, b') \<Rightarrow>
          (reraise ''Failed to read temperatures: '' (decode_registers registers), b'))"

definition read_single_temperature ::
    "r4dcb08_client \<Rightarrow> int \<Rightarrow> bus \<Rightarrow> (exception + pyfloat option) \<times> bus" where
  "read_single_temperature self channel b =
     (if \<not> (0 \<le> channel \<and> channel \<le> 7) then (Inl (ValueError ''Channel must be 0-7''), b)
      else let prefix = ''Failed to read temperature from channel '' @ str_int channel @ '': ''
           in case read_registers self channel 1 b of
                (Inl e, b') \<Rightarrow> (reraise prefix (Inl e), b')
              | (Inr registers, b') \<Rightarrow>
                  (reraise prefix
                     (case registers of
                        [] \<Rightarrow> Inl (IndexError ''list index out of range'')
                      | raw # rest \<Rightarrow> decode_temperature raw), b'))"

definition set_temperature_correction ::
    "r4dcb08_client \<Rightarrow> int \<Rightarrow> pyfloat \<Rightarrow> bus \<Rightarrow> (exception + unit) \<times> bus" where
  "set_temperature_correction self channel correction b =
     (if \<not> (0 \<le> channel \<and> channel \<le> 7) then (Inl (ValueError ''Channel must be 0-7''), b)
      else if \<not> (float_le (float_neg (float_literal (3276 / 10))) correction
                  \<and> float_le correction (float_literal (3276 / 10)))
      then (Inl (ValueError (''Correction must be between -327.6 and +327.6 ''
                              @ [CHR 0xB0] @ ''C'')), b)
      else let prefix = ''Failed to set correction for channel '' @ str_int channel @ '': ''
           in case encode_temperature correction of
                Inl e \<Rightarrow> (reraise prefix (Inl e), b)
              | Inr raw_correction \<Rightarrow>
                  (let correction_register = 0x0008 + channel
                   in case client self of
                        None \<Rightarrow> (reraise prefix (Inl (none_has_no_attribute ''write_register'')), b)
                      | Some handle \<Rightarrow>
                          (case write_register [correction_register, raw_correction]
                                  \<lparr>write_device_id_kw = Some (address self)\<rparr> b of
                             (Inl e, b') \<Rightarrow> (reraise prefix (Inl e), b')
                           | (Inr (Raises m), b') \<Rightarrow>
                               (reraise prefix (Inl (ModbusException m)), b')
                           | (Inr (ErrorResponse d), b') \<Rightarrow>
                               (reraise prefix (Inl (Exception (''Modbus error: '' @ d))), b')
                           | (Inr (Response ack), b') \<Rightarrow> (Inr (), b'))))"

definition read_temperature_corrections ::
    "r4dcb08_client \<Rightarrow> bus \<Rightarrow> (exception + pyfloat option list) \<times> bus" where
  "read_temperature_corrections self b =
     (case read_registers self 0x0008 8 b of
        (Inl e, b') \<Rightarrow> (reraise ''Failed to read temperature corrections: '' (Inl e), b')
      | (Inr registers, b') \<Rightarrow>
          (reraise ''Failed to read temperature corrections: '' (decode_registers registers), b'))"

section \<open>Failure kinds\<close>

text \<open>
  The client lets two exception classes out: \<open>ValueError\<close> from the argument checks that
  precede each \<open>try\<close> block, and the plain \<open>Exception\<close> into which each \<open>except\<close>
  clause turns whatever the block raised. In the taxonomy of the specification the
  first is \<open>InvalidArgument\<close> and the second is \<open>TransportError\<close>, which carries the
  diagnostic text; no class of the code stands for \<open>NotConnected\<close>.
\<close>

datatype failure = InvalidArgument | NotConnected | TransportError

fun failure_of :: "exception \<Rightarrow> failure option" where
  "failure_of (ValueError m) = Some InvalidArgument"
| "failure_of (Exception m) = Some TransportError"
| "failure_of e = None"

section \<open>Example inputs\<close>

text \<open>
  A device whose holding registers hold the given values: it answers a read with the
  registers asked for and acknowledges every write.
\<close>

definition device_bus :: "int list \<Rightarrow> bus" where
  "device_bus registers =
     \<lparr>calls = [],
      read_reply = (\<lambda>history c.
        case c of
          ReadHoldingRegisters addr count device_id \<Rightarrow>
            Response (take (nat count) (drop (nat addr) registers))
        | WriteRegister addr val device_id \<Rightarrow> ErrorResponse ''not a read request''),
      write_reply = (\<lambda>history c. Response ())\<rparr>"

text \<open>
  Channel 0 at 25.0 degrees, channel 1 without a sensor, channel 2 at -5.0 degrees, the
  other channels and all corrections at zero.
\<close>

definition scenario_registers :: "int list" where
  "scenario_registers = [250, 32768, 65486, 0, 0, 0, 0, 0, 0, 0, 0, 0, 0, 0, 0, 0]"

text \<open>A client as the constructor leaves it, and the same client after a successful connect.\<close>

definition fresh_client :: r4dcb08_client where
  "fresh_client = init ''/dev/ttyUSB0'' 1 9600 (Float 1)"

definition connected_client :: r4dcb08_client where
  "connected_client = snd (connect fresh_client (ConnectReturns True))"

text \<open>The client after a connect that stored the handle and returned false.\<close>

definition failed_client :: r4dcb08_client where
  "failed_client = snd (connect fresh_client (ConnectReturns False))"

section \<open>Properties of binary64 rounding\<close>

lemma bitlen_powi_bounds:
  fixes p :: int
  assumes "0 < p"
  shows "(2::rat) powi (bitlen p - 1) \<le> of_int p" and "of_int p < (2::rat) powi (bitlen p)"
proof -
  from assms have b1: "1 \<le> bitlen p"
    using bitlen_eq_zero_iff [of p] bitlen_nonneg [of p] by linarith
  from bitlen_bounds [OF assms]
  have lo: "2 ^ nat (bitlen p - 1) \<le> p" and hi: "p < 2 ^ nat (bitlen p)" by simp_all
  have "(of_int (2 ^ nat (bitlen p - 1)) :: rat) \<le> of_int p"
    using lo by (simp only: of_int_le_iff)
  then show "(2::rat) powi (bitlen p - 1) \<le> of_int p"
    using b1 by (simp add: power_int_def)
  have "(of_int p :: rat) < of_int (2 ^ nat (bitlen p))"
    using hi by (simp only: of_int_less_iff)
  then show "of_int p < (2::rat) powi (bitlen p)"
    using b1 by (simp add: power_int_def)
qed

lemma ilog2_bounds:
  assumes "0 < x"
  shows "2 powi (ilog2 x) \<le> x" and "x < 2 powi (ilog2 x + 1)"
proof -
  obtain p q where pq: "quotient_of x = (p, q)" by (cases "quotient_of x")
  then have q: "0 < q" and x: "x = of_int p / of_int q"
    using quotient_of_denom_pos [of x p q] quotient_of_div [of x p q] by simp_all
  from assms x q have p: "0 < p"
    by (simp add: zero_less_divide_iff)
  define d where "d = bitlen p - bitlen q"
  have il: "ilog2 x = (if 2 powi d \<le> x then d else d - 1)"
    by (simp add: ilog2_def pq d_def Let_def)
  have qpos: "(0::rat) < of_int q" using q by simp
  have "x < 2 powi (bitlen p) / 2 powi (bitlen q - 1)"
    unfolding x using bitlen_powi_bounds [OF p] bitlen_powi_bounds [OF q] p
    by (intro frac_less) auto
  also have "\<dots> = 2 powi (d + 1)"
    by (simp add: d_def power_int_diff [symmetric] algebra_simps)
  finally have up: "x < 2 powi (d + 1)" .
  have "2 powi (bitlen p - 1) / 2 powi (bitlen q) < x"
    unfolding x using bitlen_powi_bounds [OF p] bitlen_powi_bounds [OF q] qpos
    by (intro frac_less2) auto
  moreover have "(2::rat) powi (bitlen p - 1) / 2 powi (bitlen q) = 2 powi (d - 1)"
    by (simp add: d_def power_int_diff [symmetric] algebra_simps)
  ultimately have lo: "2 powi (d - 1) < x" by simp
  show "2 powi (ilog2 x) \<le> x" using il lo by (auto simp: not_le)
  show "x < 2 powi (ilog2 x + 1)" using il up by (auto simp: not_le)
qed

lemma powi2_mono: "a \<le> b \<Longrightarrow> (2::rat) powi a \<le> 2 powi b"
  by (rule power_int_increasing) simp_all

lemma ilog2_unique:
  assumes "0 < x" "2 powi e \<le> x" "x < 2 powi (e + 1)"
  shows "ilog2 x = e"
proof (rule ccontr)
  assume ne: "ilog2 x \<noteq> e"
  show False
  proof (cases "ilog2 x < e")
    case True
    then have "(2::rat) powi (ilog2 x + 1) \<le> 2 powi e" by (intro powi2_mono) simp
    with ilog2_bounds(2) [OF assms(1)] assms(2) show False by simp
  next
    case False
    with ne have "e + 1 \<le> ilog2 x" by simp
    then have "(2::rat) powi (e + 1) \<le> 2 powi (ilog2 x)" by (rule powi2_mono)
    with ilog2_bounds(1) [OF assms(1)] assms(3) show False by simp
  qed
qed

lemma round_half_even_of_int [simp]: "round_half_even (of_int n) = n"
  by (simp add: round_half_even_def)

lemma round_half_even_error: "\<bar>of_int (round_half_even x) - x\<bar> \<le> 1 / 2"
proof -
  have "of_int \<lfloor>x\<rfloor> \<le> x" "x < of_int \<lfloor>x\<rfloor> + 1" by linarith+
  then show ?thesis
    by (auto simp: round_half_even_def Let_def abs_le_iff)
qed

lemma round_half_even_spec:
  "\<bar>of_int (round_half_even x) - x\<bar> < 1 / 2
   \<or> (\<bar>of_int (round_half_even x) - x\<bar> = 1 / 2 \<and> even (round_half_even x))"
proof -
  define f where "f = \<lfloor>x\<rfloor>"
  define d where "d = x - of_int f"
  have d: "0 \<le> d" "d < 1" unfolding d_def f_def by linarith+
  have x: "x = of_int f + d" by (simp add: d_def)
  have r: "round_half_even x =
      (if d < 1 / 2 then f else if 1 / 2 < d then f + 1 else if even f then f else f + 1)"
    by (simp only: round_half_even_def Let_def d_def f_def)
  consider "d < 1 / 2" | "1 / 2 < d" | "d = 1 / 2" "even f" | "d = 1 / 2" "odd f"
    by fastforce
  then show ?thesis
  proof cases
    case 1
    then have "round_half_even x = f" by (simp add: r)
    then have "\<bar>of_int (round_half_even x) - x\<bar> = d" using d by (simp add: d_def)
    then show ?thesis using 1 by simp
  next
    case 2
    then have "round_half_even x = f + 1" by (simp add: r)
    then have "\<bar>of_int (round_half_even x) - x\<bar> = 1 - d" using d by (simp add: d_def)
    then show ?thesis using 2 by simp
  next
    case 3
    then have e: "round_half_even x = f" by (simp add: r)
    then have "\<bar>of_int (round_half_even x) - x\<bar> = d" using d by (simp add: d_def)
    then show ?thesis using 3 e by simp
  next
    case 4
    then have e: "round_half_even x = f + 1" by (simp add: r)
    then have "\<bar>of_int (round_half_even x) - x\<bar> = 1 - d" using d by (simp add: d_def)
    then show ?thesis using 4 e by simp
  qed
qed

lemma round_half_even_unique:
  assumes "\<bar>of_int n - x\<bar> < 1 / 2 \<or> (\<bar>of_int n - x\<bar> = 1 / 2 \<and> even n)"
  shows "round_half_even x = n"
proof (rule ccontr)
  define m where "m = round_half_even x"
  assume "round_half_even x \<noteq> n"
  then have ne: "m \<noteq> n" by (simp add: m_def)
  have sm: "\<bar>of_int m - x\<bar> < 1 / 2 \<or> (\<bar>of_int m - x\<bar> = 1 / 2 \<and> even m)"
    unfolding m_def by (rule round_half_even_spec)
  have "\<bar>(of_int m :: rat) - of_int n\<bar> \<le> \<bar>of_int m - x\<bar> + \<bar>of_int n - x\<bar>"
    by linarith
  moreover have "1 \<le> \<bar>m - n\<bar>" using ne by linarith
  then have "(1::rat) \<le> \<bar>of_int m - of_int n\<bar>"
    by (metis of_int_1 of_int_abs of_int_diff of_int_le_iff)
  ultimately have both: "\<bar>of_int m - x\<bar> = 1 / 2" "\<bar>of_int n - x\<bar> = 1 / 2"
    using sm assms by linarith+
  with sm assms have ev: "even m" "even n" by auto
  from both have "\<bar>(of_int m :: rat) - of_int n\<bar> \<le> 1" by linarith
  then have "\<bar>m - n\<bar> \<le> 1"
    by (metis of_int_1 of_int_abs of_int_diff of_int_le_iff)
  with ne have "\<bar>m - n\<bar> = 1" by linarith
  with ev show False by presburger
qed

lemma round_half_even_near_even:
  assumes "even T" "\<bar>d\<bar> \<le> 1 / 2"
  shows "round_half_even (of_int T + d) = T"
  using assms by (intro round_half_even_unique) auto

lemma round_half_even_minus: "round_half_even (- x) = - round_half_even x"
proof (rule round_half_even_unique)
  have "\<bar>rat_of_int (- round_half_even x) - - x\<bar> = \<bar>of_int (round_half_even x) - x\<bar>"
    by simp
  then show "\<bar>rat_of_int (- round_half_even x) - - x\<bar> < 1 / 2 \<or>
    \<bar>rat_of_int (- round_half_even x) - - x\<bar> = 1 / 2 \<and> even (- round_half_even x)"
    using round_half_even_spec [of x] by auto
qed

lemma round_binary64_exp:
  assumes "2 powi e \<le> \<bar>x\<bar>" "\<bar>x\<bar> < 2 powi (e + 1)" "- 1022 \<le> e"
  shows "round_binary64 x = of_int (round_half_even (x * 2 powi (52 - e))) * 2 powi (e - 52)"
proof -
  have pos: "0 < \<bar>x\<bar>" using assms(1) zero_less_power_int [of "2::rat" e] by linarith
  then have nz: "x \<noteq> 0" by auto
  have "ilog2 \<bar>x\<bar> = e" using pos assms(1,2) by (rule ilog2_unique)
  moreover have "x / 2 powi (e - 52) = x * 2 powi (52 - e)"
    by (simp add: power_int_diff field_simps)
  ultimately show ?thesis using nz assms(3)
    by (simp add: round_binary64_def Let_def max_def)
qed

lemma powi2_pos: "0 < (2::rat) powi a"
  by simp

lemma powi2_add: "(2::rat) powi a * 2 powi b = 2 powi (a + b)"
  by (simp add: power_int_add)

lemma powi2_nat: "0 \<le> n \<Longrightarrow> (2::rat) powi n = of_int (2 ^ nat n)"
  by (simp add: power_int_nonneg_exp)

lemma powi2_less_cancel: "(2::rat) powi a < 2 powi b \<Longrightarrow> a < b"
  using powi2_mono [of b a] by (cases "a < b") auto

lemma round_half_even_ge_int:
  assumes "of_int n \<le> x" shows "n \<le> round_half_even x"
proof -
  have "\<bar>of_int (round_half_even x) - x\<bar> \<le> 1 / 2" by (rule round_half_even_error)
  with assms have "rat_of_int n - 1 / 2 \<le> of_int (round_half_even x)" by linarith
  then have "rat_of_int n - 1 < of_int (round_half_even x)" by linarith
  then have "rat_of_int (n - 1) < of_int (round_half_even x)" by simp
  then have "n - 1 < round_half_even x" by (simp only: of_int_less_iff)
  then show ?thesis by simp
qed

lemma round_half_even_le_int:
  assumes "x \<le> of_int n" shows "round_half_even x \<le> n"
proof -
  have "of_int (- n) \<le> - x" using assms by simp
  then have "- n \<le> round_half_even (- x)" by (rule round_half_even_ge_int)
  then show ?thesis by (simp add: round_half_even_minus)
qed

lemma round_binary64_minus: "round_binary64 (- x) = - round_binary64 x"
  by (simp add: round_binary64_def Let_def round_half_even_minus)

lemma round_binary64_of_int:
  assumes "\<bar>t\<bar> < 2 ^ 53"
  shows "round_binary64 (of_int t) = of_int t"
proof (cases "t = 0")
  case True
  then show ?thesis by (simp add: round_binary64_def)
next
  case False
  define x :: rat where "x = of_int t"
  have ax: "\<bar>x\<bar> = of_int \<bar>t\<bar>" by (simp add: x_def)
  have pos: "0 < \<bar>x\<bar>" using False by (simp add: x_def)
  define e where "e = ilog2 \<bar>x\<bar>"
  have eb: "2 powi e \<le> \<bar>x\<bar>" "\<bar>x\<bar> < 2 powi (e + 1)"
    unfolding e_def using ilog2_bounds [OF pos] by simp_all
  have "1 \<le> \<bar>t\<bar>" using False by simp
  then have "(1::rat) \<le> \<bar>x\<bar>" unfolding ax by (metis of_int_1 of_int_le_iff)
  with eb(2) have "(2::rat) powi 0 < 2 powi (e + 1)" by simp
  then have e0: "0 \<le> e" using powi2_less_cancel [of 0 "e + 1"] by simp
  have "\<bar>x\<bar> < of_int (2 ^ 53)" unfolding ax using assms by (simp only: of_int_less_iff)
  then have "\<bar>x\<bar> < 2 powi 53" by simp
  with eb(1) have "(2::rat) powi e < 2 powi 53" by simp
  then have e52: "e \<le> 52" using powi2_less_cancel [of e 53] by simp
  define T where "T = t * 2 ^ nat (52 - e)"
  have sc: "x * 2 powi (52 - e) = of_int T"
    using e52 by (simp add: x_def powi2_nat T_def)
  have "round_binary64 x = of_int (round_half_even (x * 2 powi (52 - e))) * 2 powi (e - 52)"
    using round_binary64_exp [OF eb] e0 by simp
  also have "\<dots> = of_int T * 2 powi (e - 52)"
    by (simp only: sc round_half_even_of_int)
  also have "\<dots> = of_int t * (2 powi (52 - e) * 2 powi (e - 52))"
    using e52 by (simp add: powi2_nat T_def)
  also have "\<dots> = of_int t" by (simp add: powi2_add)
  finally show ?thesis by (simp add: x_def)
qed

text \<open>
  Dividing an integer by ten and multiplying the quotient by ten gives the integer back,
  although the quotient is rounded: the rounding error of the quotient, scaled by ten,
  stays within half a unit in the last place of the integer, and a tie goes to the even
  significand, which is the integer's.
\<close>

lemma div10_mul10_pos:
  fixes t :: int
  assumes t1: "1 \<le> t" and t2: "t \<le> 32768"
  shows "round_binary64 (round_binary64 (of_int t / 10) * 10) = of_int t"
proof -
  define x :: rat where "x = of_int t / 10"
  have tr: "(1::rat) \<le> of_int t" "rat_of_int t \<le> 32768"
    using t1 t2 by (simp_all add: of_int_le_numeral_iff [symmetric] del: of_int_le_numeral_iff)
  have xpos: "0 < x" and xlo: "1 / 10 \<le> x" and xhi: "x \<le> 32768 / 10"
    using tr by (simp_all add: x_def)
  define e where "e = ilog2 x"
  have eb: "2 powi e \<le> x" "x < 2 powi (e + 1)"
    unfolding e_def using ilog2_bounds [OF xpos] by simp_all
  have "(2::rat) powi (- 4) < 2 powi (e + 1)"
    using eb(2) xlo by (simp add: power_int_minus)
  then have e_lo: "- 4 \<le> e" using powi2_less_cancel [of "- 4" "e + 1"] by simp
  have "(2::rat) powi e < 2 powi 12" using eb(1) xhi by simp
  then have e_hi: "e \<le> 11" using powi2_less_cancel [of e 12] by simp
  define k where "k = nat (52 - e)"
  have k1: "1 \<le> k" using e_hi by (simp add: k_def)
  have pk: "(2::rat) powi (52 - e) = of_int (2 ^ k)"
    unfolding k_def using e_hi by (intro powi2_nat) simp
  define m where "m = round_half_even (x * 2 powi (52 - e))"
  have ebx: "2 powi e \<le> \<bar>x\<bar>" "\<bar>x\<bar> < 2 powi (e + 1)" using eb xpos by simp_all
  have q: "round_binary64 x = of_int m * 2 powi (e - 52)"
    unfolding m_def using round_binary64_exp [OF ebx] e_lo by simp
  have "2 powi e * 2 powi (52 - e) \<le> x * 2 powi (52 - e)"
    using eb(1) by (intro mult_right_mono) simp_all
  then have "rat_of_int (2 ^ 52) \<le> x * 2 powi (52 - e)"
    by (simp add: powi2_add)
  then have m_lo: "2 ^ 52 \<le> m" unfolding m_def by (rule round_half_even_ge_int)
  define r where "r = 10 * m - t * 2 ^ k"
  have sc: "x * 2 powi (52 - e) = of_int (t * 2 ^ k) / 10"
    unfolding pk x_def by simp
  have "\<bar>of_int m - of_int (t * 2 ^ k) / (10::rat)\<bar> \<le> 1 / 2"
    unfolding m_def sc [symmetric] by (rule round_half_even_error)
  then have "\<bar>10 * of_int m - rat_of_int (t * 2 ^ k)\<bar> \<le> 5"
    by linarith
  then have "\<bar>rat_of_int r\<bar> \<le> of_int 5" by (simp add: r_def)
  then have r5: "\<bar>r\<bar> \<le> 5" by (simp only: of_int_abs [symmetric] of_int_le_iff)
  have "even (2 ^ k :: int)" using k1 by simp
  then have "even r" by (simp add: r_def)
  with r5 have r4: "\<bar>r\<bar> \<le> 4" by presburger
  define y where "y = round_binary64 x * 10"
  have "of_int (10 * m) = rat_of_int (t * 2 ^ k) + of_int r" by (simp add: r_def)
  then have "10 * rat_of_int m = of_int t * 2 powi (52 - e) + of_int r"
    unfolding pk by simp
  then have "y = (of_int t * 2 powi (52 - e) + of_int r) * 2 powi (e - 52)"
    unfolding y_def q by (simp add: mult.commute mult.left_commute)
  also have "\<dots> = of_int t * (2 powi (52 - e) * 2 powi (e - 52)) + of_int r * 2 powi (e - 52)"
    by (simp add: algebra_simps)
  also have "\<dots> = of_int t + of_int r * 2 powi (e - 52)"
    by (simp add: powi2_add)
  finally have y_eq: "y = of_int t + of_int r * 2 powi (e - 52)" .
  have m_lo_r: "rat_of_int (2 ^ 52) \<le> of_int m" using m_lo by (simp only: of_int_le_iff)
  have "(2::rat) powi e = rat_of_int (2 ^ 52) * 2 powi (e - 52)"
    using powi2_add [of 52 "e - 52"] by simp
  also have "\<dots> \<le> of_int m * 2 powi (e - 52)"
    using m_lo_r by (intro mult_right_mono) simp_all
  finally have "2 powi e \<le> round_binary64 x" by (simp add: q)
  then have y_lo: "10 * 2 powi e \<le> y" by (simp add: y_def)
  have "(2::rat) powi (e + 3) = 8 * 2 powi e"
    using powi2_add [of e 3] by (simp add: mult.commute)
  with y_lo have y_lo3: "2 powi (e + 3) < y"
    using powi2_pos [of e] by linarith
  then have ypos: "0 < y" using powi2_pos [of "e + 3"] by linarith
  define e' where "e' = ilog2 y"
  have eb': "2 powi e' \<le> y" "y < 2 powi (e' + 1)"
    unfolding e'_def using ilog2_bounds [OF ypos] by simp_all
  have "(2::rat) powi (e + 3) < 2 powi (e' + 1)" using y_lo3 eb'(2) by simp
  then have e'_lo: "e + 3 \<le> e'" using powi2_less_cancel [of "e + 3" "e' + 1"] by simp
  have "(2::rat) powi (e - 52) \<le> 2 powi (- 2)" using e_hi by (intro powi2_mono) simp
  then have small: "(2::rat) powi (e - 52) \<le> 1 / 4" by (simp add: power_int_minus)
  have ra: "\<bar>rat_of_int r\<bar> \<le> 4"
    using r4 by (simp only: of_int_abs [symmetric] of_int_le_numeral_iff)
  have "\<bar>of_int r * (2::rat) powi (e - 52)\<bar> \<le> 4 * (1 / 4)"
    unfolding abs_mult using ra small by (intro mult_mono) simp_all
  then have "y \<le> of_int t + 1" unfolding y_eq by (simp add: abs_le_iff)
  with tr(2) eb'(1) have "(2::rat) powi e' < 2 powi 16" by simp
  then have e'_hi: "e' \<le> 15" using powi2_less_cancel [of e' 16] by simp
  define n where "n = nat (52 - e')"
  have n1: "1 \<le> n" using e'_hi by (simp add: n_def)
  have pn: "(2::rat) powi (52 - e') = of_int (2 ^ n)"
    unfolding n_def using e'_hi by (intro powi2_nat) simp
  define T where "T = t * 2 ^ n"
  have evT: "even T" using n1 by (simp add: T_def)
  have sc': "y * 2 powi (52 - e') = of_int T + of_int r * 2 powi (e - e')"
  proof -
    have pp: "(2::rat) powi (e - 52) * 2 powi (52 - e') = 2 powi (e - e')"
      using powi2_add [of "e - 52" "52 - e'"] by simp
    have "y * 2 powi (52 - e') =
        of_int t * 2 powi (52 - e') + of_int r * (2 powi (e - 52) * 2 powi (52 - e'))"
      unfolding y_eq by (simp add: algebra_simps)
    also have "\<dots> = of_int t * of_int (2 ^ n) + of_int r * 2 powi (e - e')"
      by (simp only: pp) (simp only: pn)
    also have "\<dots> = of_int T + of_int r * 2 powi (e - e')"
      unfolding T_def by simp
    finally show ?thesis .
  qed
  have "(2::rat) powi (e - e') \<le> 2 powi (- 3)" using e'_lo by (intro powi2_mono) simp
  then have small': "(2::rat) powi (e - e') \<le> 1 / 8" by (simp add: power_int_minus)
  have "\<bar>of_int r * (2::rat) powi (e - e')\<bar> \<le> 4 * (1 / 8)"
    unfolding abs_mult using ra small' by (intro mult_mono) simp_all
  then have d: "\<bar>of_int r * (2::rat) powi (e - e')\<bar> \<le> 1 / 2" by simp
  have rT: "round_half_even (y * 2 powi (52 - e')) = T"
    unfolding sc' using evT d by (rule round_half_even_near_even)
  have eby: "2 powi e' \<le> \<bar>y\<bar>" "\<bar>y\<bar> < 2 powi (e' + 1)" using eb' ypos by simp_all
  have "round_binary64 y = of_int T * 2 powi (e' - 52)"
    using round_binary64_exp [OF eby] e'_lo e_lo by (simp add: rT)
  also have "\<dots> = of_int t * (2 powi (52 - e') * 2 powi (e' - 52))"
    unfolding pn T_def by simp
  also have "\<dots> = of_int t" by (simp add: powi2_add)
  finally show ?thesis by (simp add: y_def x_def)
qed

section \<open>Properties of the codec\<close>

text \<open>
  No result of the codec overflows: rounding keeps a magnitude below a power of two below
  it, and the values at hand stay far below the largest double.
\<close>

lemma powi2_le_cancel: "(2::rat) powi a \<le> 2 powi b \<Longrightarrow> a \<le> b"
proof (rule ccontr)
  assume le: "(2::rat) powi a \<le> 2 powi b" and "\<not> a \<le> b"
  then have "b + 1 \<le> a" by simp
  then have "(2::rat) powi (b + 1) \<le> 2 powi a" by (rule powi2_mono)
  moreover have "(2::rat) powi (b + 1) = 2 * 2 powi b"
    using powi2_add [of 1 b] by (simp add: add.commute)
  ultimately show False using le powi2_pos [of b] by linarith
qed

lemma round_binary64_abs_le:
  assumes "\<bar>x\<bar> \<le> 2 powi n" and "- 1074 \<le> n"
  shows "\<bar>round_binary64 x\<bar> \<le> 2 powi n"
proof (cases "x = 0")
  case True
  then show ?thesis using powi2_pos [of n] by (simp add: round_binary64_def)
next
  case False
  then have pos: "0 < \<bar>x\<bar>" by simp
  define e where "e = max (ilog2 \<bar>x\<bar>) (- 1022)"
  define u :: rat where "u = 2 powi (e - 52)"
  have upos: "0 < u" by (simp add: u_def)
  have r: "round_binary64 x = of_int (round_half_even (x / u)) * u"
    using False by (simp add: round_binary64_def Let_def e_def u_def)
  have "2 powi (ilog2 \<bar>x\<bar>) \<le> \<bar>x\<bar>" using ilog2_bounds(1) [OF pos] .
  with assms(1) have "(2::rat) powi (ilog2 \<bar>x\<bar>) \<le> 2 powi n" by simp
  then have "ilog2 \<bar>x\<bar> \<le> n" by (rule powi2_le_cancel)
  with assms(2) have k0: "0 \<le> n - e + 52" by (simp add: e_def)
  define N :: int where "N = 2 ^ nat (n - e + 52)"
  have N: "(2::rat) powi (n - e + 52) = of_int N"
    unfolding N_def using k0 by (rule powi2_nat)
  have Nu: "rat_of_int N * u = 2 powi n"
    unfolding N [symmetric] u_def powi2_add by simp
  have "\<bar>x\<bar> \<le> of_int N * u" using assms(1) Nu by simp
  then have "\<bar>x / u\<bar> \<le> of_int N" using upos by (simp add: pos_divide_le_eq)
  then have "x / u \<le> of_int N" "of_int (- N) \<le> x / u"
    unfolding abs_le_iff by simp_all
  then have "round_half_even (x / u) \<le> N" "- N \<le> round_half_even (x / u)"
    by (simp_all only: round_half_even_le_int round_half_even_ge_int)
  then have "\<bar>round_half_even (x / u)\<bar> \<le> N" by simp
  then have "\<bar>rat_of_int (round_half_even (x / u))\<bar> \<le> of_int N"
    by (simp only: of_int_abs [symmetric] of_int_le_iff)
  then have "\<bar>rat_of_int (round_half_even (x / u))\<bar> * u \<le> of_int N * u"
    using upos by (intro mult_right_mono) simp_all
  then show ?thesis unfolding r abs_mult Nu using upos by simp
qed

lemma max_double_ge: "65536 \<le> max_double"
proof -
  have "(1::rat) \<le> 2 ^ 971" by (rule one_le_power) simp
  then have "(2 ^ 53 - 1) * (1::rat) \<le> (2 ^ 53 - 1) * 2 ^ 971"
    by (intro mult_left_mono) simp_all
  then show ?thesis by (simp add: max_double_def)
qed

lemma to_pyfloat_small:
  assumes "\<bar>x\<bar> \<le> 65536"
  shows "to_pyfloat x = Float (round_binary64 x)"
proof -
  have "\<bar>x\<bar> \<le> 2 powi 16" using assms by simp
  then have "\<bar>round_binary64 x\<bar> \<le> 2 powi 16" by (rule round_binary64_abs_le) simp
  then have "\<bar>round_binary64 x\<bar> \<le> max_double" using max_double_ge by simp
  then show ?thesis by (simp add: to_pyfloat_def Let_def abs_le_iff not_less)
qed

lemma float_of_int_small:
  assumes "\<bar>i\<bar> \<le> 65536"
  shows "float_of_int i = Inr (Float (of_int i))"
proof -
  have "\<bar>i\<bar> < 2 ^ 53" using assms by simp
  then have r: "round_binary64 (of_int i) = of_int i" by (rule round_binary64_of_int)
  have "\<bar>rat_of_int i\<bar> \<le> 65536"
    using assms by (simp only: of_int_abs [symmetric] of_int_le_numeral_iff)
  then have "\<bar>rat_of_int i\<bar> \<le> max_double" using max_double_ge by simp
  then show ?thesis by (simp add: float_of_int_def r Let_def)
qed

lemma float_literal_10: "float_literal 10 = Float 10"
proof -
  have "round_binary64 (of_int 10) = of_int 10" by (rule round_binary64_of_int) simp
  then show ?thesis by (simp add: float_literal_def to_pyfloat_small)
qed

lemma round_binary64_tenth_bound:
  fixes t :: int
  assumes "\<bar>t\<bar> \<le> 32768"
  shows "\<bar>round_binary64 (of_int t / 10)\<bar> \<le> 4096"
proof -
  have "\<bar>rat_of_int t\<bar> \<le> 32768"
    using assms by (simp only: of_int_abs [symmetric] of_int_le_numeral_iff)
  then have "\<bar>rat_of_int t / 10\<bar> \<le> 2 powi 12" by simp
  then have "\<bar>round_binary64 (of_int t / 10)\<bar> \<le> 2 powi 12"
    by (rule round_binary64_abs_le) simp
  then show ?thesis by simp
qed

lemma float_literal_tenth:
  fixes t :: int
  assumes "\<bar>t\<bar> \<le> 32768"
  shows "float_literal (of_int t / 10) = Float (round_binary64 (of_int t / 10))"
proof -
  have "\<bar>rat_of_int t\<bar> \<le> 32768"
    using assms by (simp only: of_int_abs [symmetric] of_int_le_numeral_iff)
  then have "\<bar>rat_of_int t / 10\<bar> \<le> 65536" by simp
  then show ?thesis by (simp add: float_literal_def to_pyfloat_small)
qed

text \<open>
  Rounding is monotone.
\<close>

lemma round_half_even_mono:
  assumes "x \<le> y" shows "round_half_even x \<le> round_half_even y"
proof (rule ccontr)
  assume "\<not> round_half_even x \<le> round_half_even y"
  then have "round_half_even y + 1 \<le> round_half_even x" by simp
  then have gt: "rat_of_int (round_half_even y) + 1 \<le> of_int (round_half_even x)"
    by (metis of_int_1 of_int_add of_int_le_iff)
  have ex: "\<bar>of_int (round_half_even x) - x\<bar> \<le> 1 / 2"
    and ey: "\<bar>of_int (round_half_even y) - y\<bar> \<le> 1 / 2"
    by (rule round_half_even_error)+
  from gt ex ey assms have "x = y" by linarith
  with gt show False by simp
qed

lemma round_binary64_nonneg:
  assumes "0 \<le> x" shows "0 \<le> round_binary64 x"
proof (cases "x = 0")
  case True
  then show ?thesis by (simp add: round_binary64_def)
next
  case False
  define u :: rat where "u = 2 powi (max (ilog2 \<bar>x\<bar>) (- 1022) - 52)"
  have upos: "0 < u" by (simp add: u_def)
  have "rat_of_int 0 \<le> x / u" using assms upos by simp
  then have "0 \<le> round_half_even (x / u)" by (rule round_half_even_ge_int)
  then have "0 \<le> rat_of_int (round_half_even (x / u)) * u" using upos by simp
  then show ?thesis using False by (simp add: round_binary64_def Let_def u_def)
qed

lemma round_binary64_mono_pos:
  assumes "0 < x" "x \<le> y"
  shows "round_binary64 x \<le> round_binary64 y"
proof -
  have ypos: "0 < y" using assms by simp
  define ex where "ex = max (ilog2 x) (- 1022)"
  define ey where "ey = max (ilog2 y) (- 1022)"
  define ux :: rat where "ux = 2 powi (ex - 52)"
  define uy :: rat where "uy = 2 powi (ey - 52)"
  have rx: "round_binary64 x = of_int (round_half_even (x / ux)) * ux"
    using assms(1) by (simp add: round_binary64_def Let_def ex_def ux_def)
  have ry: "round_binary64 y = of_int (round_half_even (y / uy)) * uy"
    using ypos by (simp add: round_binary64_def Let_def ey_def uy_def)
  have uxpos: "0 < ux" and uypos: "0 < uy" by (simp_all add: ux_def uy_def)
  have "2 powi (ilog2 x) \<le> x" using ilog2_bounds(1) [OF assms(1)] .
  moreover have "y < 2 powi (ilog2 y + 1)" using ilog2_bounds(2) [OF ypos] .
  ultimately have "(2::rat) powi (ilog2 x) < 2 powi (ilog2 y + 1)" using assms(2) by linarith
  then have "ilog2 x \<le> ilog2 y" using powi2_less_cancel [of "ilog2 x" "ilog2 y + 1"] by simp
  then have le: "ex \<le> ey" by (simp add: ex_def ey_def)
  show ?thesis
  proof (cases "ex = ey")
    case True
    then have u: "ux = uy" by (simp add: ux_def uy_def)
    have "x / uy \<le> y / uy" using assms(2) uypos by (simp add: divide_right_mono)
    then have "round_half_even (x / uy) \<le> round_half_even (y / uy)"
      by (rule round_half_even_mono)
    then have "rat_of_int (round_half_even (x / uy)) \<le> of_int (round_half_even (y / uy))"
      by (simp only: of_int_le_iff)
    then show ?thesis unfolding rx ry u using uypos by (intro mult_right_mono) simp_all
  next
    case False
    with le have lt: "ex < ey" by simp
    then have eyi: "ey = ilog2 y" by (simp add: ex_def ey_def max_def split: if_splits)
    have "x < 2 powi (ilog2 x + 1)" using ilog2_bounds(2) [OF assms(1)] .
    moreover have "(2::rat) powi (ilog2 x + 1) \<le> 2 powi (ex + 1)"
      by (intro powi2_mono) (simp add: ex_def)
    ultimately have "x < 2 powi (ex + 1)" by linarith
    moreover have e1: "(2::rat) powi (ex + 1) = of_int (2 ^ 53) * ux"
      unfolding ux_def using powi2_add [of 53 "ex - 52"] by (simp add: add.commute)
    ultimately have "x / ux \<le> of_int (2 ^ 53)" using uxpos by (simp add: pos_divide_le_eq)
    then have "round_half_even (x / ux) \<le> 2 ^ 53" by (rule round_half_even_le_int)
    then have "rat_of_int (round_half_even (x / ux)) \<le> of_int (2 ^ 53)"
      by (simp only: of_int_le_iff)
    then have "rat_of_int (round_half_even (x / ux)) * ux \<le> of_int (2 ^ 53) * ux"
      using uxpos by (intro mult_right_mono) simp_all
    also have "\<dots> = 2 powi (ex + 1)" by (simp only: e1)
    also have "\<dots> \<le> 2 powi ey" using lt by (intro powi2_mono) simp
    finally have a: "round_binary64 x \<le> 2 powi ey" unfolding rx .
    have "2 powi ey \<le> y" unfolding eyi using ilog2_bounds(1) [OF ypos] .
    moreover have e2: "(2::rat) powi ey = of_int (2 ^ 52) * uy"
      unfolding uy_def using powi2_add [of 52 "ey - 52"] by simp
    ultimately have "of_int (2 ^ 52) \<le> y / uy" using uypos by (simp add: pos_le_divide_eq)
    then have "2 ^ 52 \<le> round_half_even (y / uy)" by (rule round_half_even_ge_int)
    then have "rat_of_int (2 ^ 52) \<le> of_int (round_half_even (y / uy))"
      by (simp only: of_int_le_iff)
    then have "of_int (2 ^ 52) * uy \<le> rat_of_int (round_half_even (y / uy)) * uy"
      using uypos by (intro mult_right_mono) simp_all
    then have "2 powi ey \<le> round_binary64 y" unfolding ry e2 .
    with a show ?thesis by linarith
  qed
qed

lemma round_binary64_mono:
  assumes "x \<le> y"
  shows "round_binary64 x \<le> round_binary64 y"
proof -
  consider "0 < x" | "x \<le> 0" "0 \<le> y" | "y < 0" by linarith
  then show ?thesis
  proof cases
    case 1
    then show ?thesis using assms by (rule round_binary64_mono_pos)
  next
    case 2
    have "0 \<le> round_binary64 (- x)" using 2(1) by (intro round_binary64_nonneg) simp
    then have "round_binary64 x \<le> 0" by (simp add: round_binary64_minus)
    moreover have "0 \<le> round_binary64 y" using 2(2) by (rule round_binary64_nonneg)
    ultimately show ?thesis by linarith
  next
    case 3
    then have "round_binary64 (- y) \<le> round_binary64 (- x)"
      using assms by (intro round_binary64_mono_pos) simp_all
    then show ?thesis by (simp add: round_binary64_minus)
  qed
qed

text \<open>
  The codec on the tenths: the quotient \<open>t / 10.0\<close>, its product with ten and its
  encoding, for the integers \<open>t\<close> of the 16-bit range.
\<close>

lemma div10_mul10:
  fixes t :: int
  assumes "\<bar>t\<bar> \<le> 32768"
  shows "round_binary64 (round_binary64 (of_int t / 10) * 10) = of_int t"
proof -
  consider "t = 0" | "1 \<le> t" | "1 \<le> - t" by linarith
  then show ?thesis
  proof cases
    case 1
    then show ?thesis by (simp add: round_binary64_def)
  next
    case 2
    then show ?thesis using assms by (intro div10_mul10_pos) simp_all
  next
    case 3
    then have "round_binary64 (round_binary64 (of_int (- t) / 10) * 10) = of_int (- t)"
      using assms by (intro div10_mul10_pos) simp_all
    then show ?thesis by (simp add: round_binary64_minus)
  qed
qed

lemma int_truediv_float_10:
  assumes "\<bar>i\<bar> \<le> 32768"
  shows "int_truediv_float i (float_literal 10) = Inr (Float (round_binary64 (of_int i / 10)))"
proof -
  have "\<bar>rat_of_int i\<bar> \<le> 32768"
    using assms by (simp only: of_int_abs [symmetric] of_int_le_numeral_iff)
  then have "\<bar>rat_of_int i / 10\<bar> \<le> 65536" by simp
  then show ?thesis
    using assms by (simp add: int_truediv_float_def float_of_int_small float_literal_10 to_pyfloat_small)
qed

lemma float_mul_tenth:
  fixes t :: int
  assumes "\<bar>t\<bar> \<le> 32768"
  shows "float_mul (Float (round_binary64 (of_int t / 10))) (Float 10) = Float (of_int t)"
proof -
  have "\<bar>round_binary64 (of_int t / 10) * 10\<bar> \<le> 65536"
    using round_binary64_tenth_bound [OF assms] by (simp add: abs_mult)
  then show ?thesis by (simp add: to_pyfloat_small div10_mul10 [OF assms])
qed

lemma encode_temperature_tenth:
  fixes t :: int
  assumes "\<bar>t\<bar> \<le> 32768"
  shows "encode_temperature (Float (round_binary64 (of_int t / 10))) =
    Inr (if t < 0 then t + 65536 else t)"
  unfolding encode_temperature_def float_mul_tenth [OF assms] by simp

lemma decode_temperature_value:
  assumes "0 \<le> raw" "raw \<le> 65535" "raw \<noteq> 32768"
  shows "decode_temperature raw =
    Inr (Some (Float (round_binary64
      (of_int (if raw > 32767 then raw - 65536 else raw) / 10))))"
proof -
  have "\<bar>if raw > 32767 then raw - 65536 else raw\<bar> \<le> 32768" using assms by auto
  then show ?thesis
    using assms(3) by (simp add: decode_temperature_def Let_def int_truediv_float_10)
qed

lemma decode_temperature_total:
  assumes "0 \<le> raw" "raw \<le> 65535"
  shows "\<exists>t. decode_temperature raw = Inr t"
  using decode_temperature_value [OF assms] by (cases "raw = 32768") (simp_all add: decode_temperature_def)

text \<open>
  The doubles that the literals of the source and of the specification denote, and the
  values of the end-to-end scenarios.
\<close>

lemma round_binary64_0_1: "round_binary64 (1 / 10) = 3602879701896397 / 36028797018963968"
  by code_simp

lemma float_literal_0_1: "float_literal (1 / 10) = Float (3602879701896397 / 36028797018963968)"
  by (simp add: float_literal_def to_pyfloat_small round_binary64_0_1)

lemma round_binary64_327_6: "round_binary64 (3276 / 10) = 2881600074075341 / 8796093022208"
  by code_simp

lemma float_literal_327_6: "float_literal (3276 / 10) = Float (2881600074075341 / 8796093022208)"
  unfolding float_literal_def using round_binary64_327_6 by (subst to_pyfloat_small) simp_all

lemma float_literal_327_7:
  "float_literal (3277 / 10) = Float (5764959366755123 / 17592186044416)"
proof -
  have "round_binary64 (3277 / 10) = 5764959366755123 / 17592186044416" by code_simp
  then show ?thesis unfolding float_literal_def by (subst to_pyfloat_small) simp_all
qed

lemma float_literal_1_5: "float_literal (3 / 2) = Float (3 / 2)"
proof -
  have "round_binary64 (3 / 2) = 3 / 2" by code_simp
  then show ?thesis unfolding float_literal_def by (subst to_pyfloat_small) simp_all
qed

lemma encode_1_5: "encode_temperature (float_literal (3 / 2)) = Inr 15"
proof -
  have "round_binary64 (of_int 15) = of_int 15" by (rule round_binary64_of_int) simp
  then have "float_mul (Float (3 / 2)) (Float 10) = Float 15"
    by (simp add: to_pyfloat_small)
  then show ?thesis unfolding float_literal_1_5 encode_temperature_def by simp
qed

lemma decode_25: "decode_temperature 250 = Inr (Some (Float 25))"
proof -
  have "round_binary64 (of_int 25) = of_int 25" by (rule round_binary64_of_int) simp
  then show ?thesis using decode_temperature_value [of 250] by simp
qed

lemma decode_minus_5: "decode_temperature 65486 = Inr (Some (Float (- 5)))"
proof -
  have "round_binary64 (of_int (- 5)) = of_int (- 5)" by (rule round_binary64_of_int) simp
  then show ?thesis using decode_temperature_value [of 65486] by simp
qed

lemma decode_0: "decode_temperature 0 = Inr (Some (Float 0))"
  using decode_temperature_value [of 0] by (simp add: round_binary64_def)

lemma decode_sentinel: "decode_temperature 32768 = Inr None"
  by (simp add: decode_temperature_def)

text \<open>
  Inside the correction range the product with ten rounds to a value between
  \<open>-3276\<close> and \<open>3276\<close>, because \<open>327.6 * 10\<close> rounds to \<open>3276\<close> and rounding
  is monotone.
\<close>

lemma correction_range_product:
  assumes "- round_binary64 (3276 / 10) \<le> x" and "x \<le> round_binary64 (3276 / 10)"
  shows "float_mul (Float x) (Float 10) = Float (round_binary64 (x * 10))"
    and "- 3276 \<le> round_binary64 (x * 10)" and "round_binary64 (x * 10) \<le> 3276"
proof -
  define c where "c = round_binary64 (rat_of_int 3276 / 10)"
  have c: "round_binary64 (3276 / 10) = c" by (simp add: c_def)
  have "\<bar>c\<bar> \<le> 4096" unfolding c_def by (rule round_binary64_tenth_bound) simp
  with assms have "\<bar>x * 10\<bar> \<le> 65536" unfolding c by (simp add: abs_mult abs_le_iff)
  then show "float_mul (Float x) (Float 10) = Float (round_binary64 (x * 10))"
    by (simp add: to_pyfloat_small)
  have cc: "round_binary64 (c * 10) = 3276"
    unfolding c_def using div10_mul10 [of 3276] by simp
  have "round_binary64 (x * 10) \<le> round_binary64 (c * 10)"
    using assms(2) unfolding c by (intro round_binary64_mono) simp
  then show "round_binary64 (x * 10) \<le> 3276" by (simp only: cc)
  have "round_binary64 (- (c * 10)) \<le> round_binary64 (x * 10)"
    using assms(1) unfolding c by (intro round_binary64_mono) simp
  then show "- 3276 \<le> round_binary64 (x * 10)" by (simp add: round_binary64_minus cc)
qed

lemma encode_temperature_correction_range:
  assumes "float_le (float_neg (float_literal (3276 / 10))) v"
    and "float_le v (float_literal (3276 / 10))"
  shows "\<exists>r. encode_temperature v = Inr (if r < 0 then r + 65536 else r)
           \<and> - 3276 \<le> r \<and> r \<le> 3276"
proof -
  have l: "float_literal (3276 / 10) = Float (round_binary64 (3276 / 10))"
    using float_literal_tenth [of 3276] by simp
  from assms obtain x where v: "v = Float x"
    and x: "- round_binary64 (3276 / 10) \<le> x" "x \<le> round_binary64 (3276 / 10)"
    unfolding l by (cases v) simp_all
  define y where "y = round_binary64 (x * 10)"
  define r where "r = (if 0 \<le> y then \<lfloor>y\<rfloor> else \<lceil>y\<rceil>)"
  have m: "float_mul v (Float 10) = Float y"
    and y: "- 3276 \<le> y" "y \<le> 3276"
    unfolding v y_def using correction_range_product [OF x] by simp_all
  have "\<lfloor>y\<rfloor> \<le> 3276" using y(2) by (simp add: floor_le_iff)
  moreover have "- 3276 \<le> \<lceil>y\<rceil>" using y(1) by (simp add: le_ceiling_iff)
  moreover have "0 \<le> y \<Longrightarrow> 0 \<le> \<lfloor>y\<rfloor>" by simp
  moreover have "\<not> 0 \<le> y \<Longrightarrow> \<lceil>y\<rceil> \<le> 0" by simp
  ultimately have r: "- 3276 \<le> r" "r \<le> 3276" unfolding r_def by auto
  have "encode_temperature v = Inr (if r < 0 then r + 65536 else r)"
    unfolding encode_temperature_def m r_def by simp
  with r show ?thesis by blast
qed

text \<open>
  \<^bold>\<open>C1.\<close> For every raw register value in \<open>[0, 65535]\<close>, \<open>decode_temperature\<close> returns
  \<open>None\<close> exactly when the value is \<open>0x8000\<close>; every other value gives the signed
  16-bit reading divided by \<open>10.0\<close>, that is the double nearest to a tenth of
  \<open>raw - 65536\<close> when \<open>raw > 32767\<close> and of \<open>raw\<close> otherwise. The copy in
  \<open>modbus_py.py\<close> agrees. In particular \<open>32767\<close> decodes to \<open>3276.7\<close>, \<open>32768\<close> to
  \<open>None\<close> and \<open>65535\<close> to \<open>-0.1\<close>.
\<close>

theorem decode_temperature_cases:
  assumes "0 \<le> raw" and "raw \<le> 65535"
  shows "(decode_temperature raw = Inr None \<longleftrightarrow> raw = 0x8000)
    \<and> (raw \<noteq> 0x8000 \<longrightarrow> decode_temperature raw =
          Inr (Some (Float (round_binary64
            (of_int (if raw > 32767 then raw - 65536 else raw) / 10)))))
    \<and> modbus_py_decode_temperature raw = decode_temperature raw
    \<and> decode_temperature 32767 = Inr (Some (float_literal (32767 / 10)))
    \<and> decode_temperature 32768 = Inr None
    \<and> decode_temperature 65535 = Inr (Some (float_neg (float_literal (1 / 10))))"
proof -
  have a: "decode_temperature raw = Inr None \<longleftrightarrow> raw = 0x8000"
    using decode_temperature_value [OF assms] by (cases "raw = 32768") (simp_all add: decode_temperature_def)
  have b: "raw \<noteq> 0x8000 \<longrightarrow> decode_temperature raw =
          Inr (Some (Float (round_binary64
            (of_int (if raw > 32767 then raw - 65536 else raw) / 10))))"
    using decode_temperature_value [OF assms] by simp
  have c: "modbus_py_decode_temperature raw = decode_temperature raw"
    by (simp add: modbus_py_decode_temperature_def decode_temperature_def)
  have d: "decode_temperature 32767 = Inr (Some (float_literal (32767 / 10)))"
    using decode_temperature_value [of 32767] by (simp add: float_literal_def to_pyfloat_small)
  have e: "decode_temperature 32768 = Inr None" by (simp add: decode_temperature_def)
  have "round_binary64 (- (1 / 10)) = - round_binary64 (1 / 10)" by (rule round_binary64_minus)
  then have f: "decode_temperature 65535 = Inr (Some (float_neg (float_literal (1 / 10))))"
    using decode_temperature_value [of 65535] by (simp add: float_literal_def to_pyfloat_small)
  from a b c d e f show ?thesis by blast
qed

theorem decode_temperature_cases_witness:
  "(0::int) \<le> 65535 \<and> (65535::int) \<le> 65535
   \<and> decode_temperature 65535 = Inr (Some (Float (- (3602879701896397 / 36028797018963968))))
   \<and> decode_temperature 32768 = Inr None"
proof -
  have h: "(0::int) \<le> 65535" "(65535::int) \<le> 65535" by simp_all
  from decode_temperature_cases [OF h]
  have "decode_temperature 65535 = Inr (Some (float_neg (float_literal (1 / 10))))"
    and "decode_temperature 32768 = Inr None" by blast+
  then show ?thesis by (simp add: float_literal_0_1)
qed

text \<open>
  \<^bold>\<open>C2.\<close> For every integer \<open>t\<close> with \<open>-3276 \<le> t \<le> 3276\<close>, encoding the float
  \<open>t / 10.0\<close> and decoding the register gives the float \<open>t / 10.0\<close> back, bit for bit:
  the register is \<open>t\<close> itself, or \<open>t + 65536\<close> when \<open>t\<close> is negative.
\<close>

theorem encode_decode_round_trip:
  assumes "- 3276 \<le> t" and "t \<le> 3276"
  shows "\<exists>x r. int_truediv_float t (float_literal 10) = Inr x
           \<and> encode_temperature x = Inr r
           \<and> r = (if t < 0 then t + 65536 else t)
           \<and> decode_temperature r = Inr (Some x)"
proof -
  define x where "x = Float (round_binary64 (of_int t / 10))"
  define r where "r = (if t < 0 then t + 65536 else t)"
  have t: "\<bar>t\<bar> \<le> 32768" using assms by simp
  have 1: "int_truediv_float t (float_literal 10) = Inr x"
    unfolding x_def by (rule int_truediv_float_10 [OF t])
  have 2: "encode_temperature x = Inr r"
    unfolding x_def r_def by (rule encode_temperature_tenth [OF t])
  have r: "0 \<le> r" "r \<le> 65535" "r \<noteq> 32768" and s: "(if r > 32767 then r - 65536 else r) = t"
    using assms by (auto simp: r_def)
  have 3: "decode_temperature r = Inr (Some x)"
    unfolding x_def using decode_temperature_value [OF r] by (simp only: s)
  from 1 2 3 show ?thesis unfolding r_def by blast
qed

theorem encode_decode_round_trip_witness:
  "(- 3276::int) \<le> - 15 \<and> (- 15::int) \<le> 3276
   \<and> (\<exists>x. int_truediv_float (- 15) (float_literal 10) = Inr x
         \<and> encode_temperature x = Inr 65521
         \<and> decode_temperature 65521 = Inr (Some x))"
  using encode_decode_round_trip [of "- 15"] by simp

text \<open>
  \<^bold>\<open>C8.\<close> \<open>encode_temperature\<close> truncates the float product \<open>temperature * 10\<close> toward
  zero (the integer \<open>r\<close> of the same sign with \<open>\<bar>r\<bar> \<le> \<bar>y\<bar> < \<bar>r\<bar> + 1\<close>) and adds
  \<open>65536\<close> when the result is negative. In particular \<open>327.6\<close> encodes to \<open>3276\<close> and
  \<open>-327.6\<close> to \<open>62260\<close>.
\<close>

theorem encode_temperature_truncates:
  assumes "float_mul v (Float 10) = Float y"
  shows "(\<exists>r. \<bar>rat_of_int r\<bar> \<le> \<bar>y\<bar> \<and> \<bar>y\<bar> < \<bar>rat_of_int r\<bar> + 1
              \<and> (0 \<le> y \<longrightarrow> 0 \<le> r) \<and> (y \<le> 0 \<longrightarrow> r \<le> 0)
              \<and> encode_temperature v = Inr (if r < 0 then r + 65536 else r))
    \<and> encode_temperature (float_literal (3276 / 10)) = Inr 3276
    \<and> encode_temperature (float_neg (float_literal (3276 / 10))) = Inr 62260"
proof -
  define r where "r = (if 0 \<le> y then \<lfloor>y\<rfloor> else \<lceil>y\<rceil>)"
  have e: "encode_temperature v = Inr (if r < 0 then r + 65536 else r)"
    by (simp add: encode_temperature_def assms r_def)
  have b: "\<bar>rat_of_int r\<bar> \<le> \<bar>y\<bar>" "\<bar>y\<bar> < \<bar>rat_of_int r\<bar> + 1"
    unfolding r_def by (cases "0 \<le> y"; simp; linarith)+
  have s: "0 \<le> y \<longrightarrow> 0 \<le> r" "y \<le> 0 \<longrightarrow> r \<le> 0"
    unfolding r_def by auto
  have l: "float_literal (rat_of_int 3276 / 10) = Float (round_binary64 (of_int 3276 / 10))"
    by (rule float_literal_tenth) simp
  have p: "encode_temperature (float_literal (3276 / 10)) = Inr 3276"
    using encode_temperature_tenth [of 3276] l by simp
  have n: "encode_temperature (float_neg (float_literal (3276 / 10))) = Inr 62260"
    using encode_temperature_tenth [of "- 3276"] l by (simp add: round_binary64_minus)
  from e b s p n show ?thesis by blast
qed

theorem encode_temperature_truncates_witness:
  "float_mul (Float (- (7 / 4))) (Float 10) = Float (- (35 / 2))
   \<and> encode_temperature (Float (- (7 / 4))) = Inr 65519"
proof -
  have "round_binary64 (- (35 / 2)) = - (35 / 2)" by code_simp
  then have m: "float_mul (Float (- (7 / 4))) (Float 10) = Float (- (35 / 2))"
    by (simp add: to_pyfloat_small)
  from encode_temperature_truncates [OF m]
  obtain r where "\<bar>rat_of_int r\<bar> \<le> 35 / 2" "35 / 2 < \<bar>rat_of_int r\<bar> + 1" "r \<le> 0"
    and e: "encode_temperature (Float (- (7 / 4))) = Inr (if r < 0 then r + 65536 else r)"
    by auto
  then have "r = - 17" by linarith
  with m e show ?thesis by simp
qed

text \<open>
  \<^bold>\<open>C9.\<close> For every float \<open>v\<close> with \<open>-327.6 <= v <= 327.6\<close>, \<open>encode_temperature\<close>
  returns a register value in \<open>[0, 65535]\<close> that is not the sentinel \<open>0x8000\<close>; it lies
  in \<open>[0, 3276]\<close> or in \<open>[62260, 65535]\<close>.
\<close>

theorem encode_temperature_never_sentinel:
  assumes "float_le (float_neg (float_literal (3276 / 10))) v"
    and "float_le v (float_literal (3276 / 10))"
  shows "\<exists>raw. encode_temperature v = Inr raw \<and> 0 \<le> raw \<and> raw \<le> 65535 \<and> raw \<noteq> 0x8000
           \<and> (raw \<le> 3276 \<or> 62260 \<le> raw)"
proof -
  from encode_temperature_correction_range [OF assms]
  obtain r where e: "encode_temperature v = Inr (if r < 0 then r + 65536 else r)"
    and r: "- 3276 \<le> r" "r \<le> 3276" by blast
  define raw where "raw = (if r < 0 then r + 65536 else r)"
  show ?thesis
  proof (cases "r < 0")
    case True
    then have "62260 \<le> raw" "raw \<le> 65535" using r by (simp_all add: raw_def)
    then show ?thesis using e by (intro exI [of _ raw]) (simp add: raw_def)
  next
    case False
    then have "0 \<le> raw" "raw \<le> 3276" using r by (simp_all add: raw_def)
    then show ?thesis using e by (intro exI [of _ raw]) (simp add: raw_def)
  qed
qed

theorem encode_temperature_never_sentinel_witness:
  "float_le (float_neg (float_literal (3276 / 10))) (Float (- (7 / 4)))
   \<and> float_le (Float (- (7 / 4))) (float_literal (3276 / 10))
   \<and> (\<exists>raw. encode_temperature (Float (- (7 / 4))) = Inr raw \<and> 0 \<le> raw \<and> raw \<le> 65535
          \<and> raw \<noteq> 0x8000)"
proof -
  have h: "float_le (float_neg (float_literal (3276 / 10))) (Float (- (7 / 4)))"
    "float_le (Float (- (7 / 4))) (float_literal (3276 / 10))"
    unfolding float_literal_327_6 by simp_all
  from encode_temperature_never_sentinel [OF h] h show ?thesis by blast
qed

text \<open>
  \<^bold>\<open>C10.\<close> \<open>decode_temperature\<close> is injective on the raw values of \<open>[0, 65535]\<close> other
  than the sentinel: two different registers never decode to the same float.
\<close>

theorem decode_temperature_injective:
  assumes "0 \<le> a" and "a \<le> 65535" and "0 \<le> b" and "b \<le> 65535"
    and "a \<noteq> 0x8000" and "b \<noteq> 0x8000" and "a \<noteq> b"
  shows "decode_temperature a \<noteq> decode_temperature b"
proof
  define sa where "sa = (if a > 32767 then a - 65536 else a)"
  define sb where "sb = (if b > 32767 then b - 65536 else b)"
  have ba: "\<bar>sa\<bar> \<le> 32768" and bb: "\<bar>sb\<bar> \<le> 32768"
    using assms by (auto simp: sa_def sb_def)
  assume "decode_temperature a = decode_temperature b"
  then have "round_binary64 (of_int sa / 10) = round_binary64 (of_int sb / 10)"
    using decode_temperature_value [of a] decode_temperature_value [of b] assms
    by (simp add: sa_def sb_def)
  then have "round_binary64 (round_binary64 (of_int sa / 10) * 10) =
      round_binary64 (round_binary64 (of_int sb / 10) * 10)" by simp
  then have "rat_of_int sa = of_int sb"
    by (simp only: div10_mul10 [OF ba] div10_mul10 [OF bb])
  then have "sa = sb" by simp
  then have "a = b" using assms by (auto simp: sa_def sb_def split: if_splits)
  with assms(7) show False by simp
qed

theorem decode_temperature_injective_witness:
  "(0::int) \<le> 32767 \<and> (32767::int) \<le> 65535 \<and> (0::int) \<le> 65535 \<and> (65535::int) \<le> 65535
   \<and> (32767::int) \<noteq> 0x8000 \<and> (65535::int) \<noteq> 0x8000 \<and> (32767::int) \<noteq> 65535
   \<and> decode_temperature 32767 \<noteq> decode_temperature 65535"
  using decode_temperature_injective [of 32767 65535] by simp

section \<open>Properties of the device client\<close>

text \<open>
  The operations, split into what reaches the bus and what is made of the answer.
\<close>

lemma connected_client_simps:
  "client connected_client = Some \<lparr>serial_port = ''/dev/ttyUSB0'', serial_baudrate = 9600,
       serial_parity = CHR ''N'', serial_stopbits = 1, serial_bytesize = 8,
       serial_timeout = Float 1\<rparr>"
  "address connected_client = 1"
  by (simp_all add: connected_client_def fresh_client_def connect_def init_def)

lemma fresh_client_simps: "client fresh_client = None" "address fresh_client = 1"
  by (simp_all add: fresh_client_def init_def)

lemma decode_registers_Inr:
  assumes "\<forall>raw \<in> set registers. 0 \<le> raw \<and> raw \<le> 65535"
  shows "\<exists>ts. decode_registers registers = Inr ts \<and> length ts = length registers
           \<and> (\<forall>i < length registers. decode_temperature (registers ! i) = Inr (ts ! i))"
  using assms
proof (induction registers)
  case Nil
  then show ?case by simp
next
  case (Cons raw rest)
  then obtain ts where ts: "decode_registers rest = Inr ts" "length ts = length rest"
    "\<forall>i < length rest. decode_temperature (rest ! i) = Inr (ts ! i)" by auto
  from Cons.prems obtain t where t: "decode_temperature raw = Inr t"
    using decode_temperature_total [of raw] by auto
  have "\<forall>i < length (raw # rest). decode_temperature ((raw # rest) ! i) = Inr ((t # ts) ! i)"
    using t ts(3) by (auto simp: nth_Cons split: nat.splits)
  then show ?case using t ts by simp
qed

text \<open>
  With a handle present, the reading call is refused when its arguments are bound: two
  positional arguments and one keyword argument meet a method that takes the address
  alone by position.
\<close>

lemma positional_count_message:
  "too_many_positional ''ModbusClientMixin.read_holding_registers'' 2 3 1 =
     ''ModbusClientMixin.read_holding_registers() takes 2 positional arguments but 3 ''
     @ ''positional arguments (and 1 keyword-only argument) were given''"
  by code_simp

lemma read_registers_connected:
  assumes "client self = Some handle"
  shows "read_registers self addr count b =
    (Inl (TypeError (''ModbusClientMixin.read_holding_registers() takes 2 positional ''
                     @ ''arguments but 3 positional arguments (and 1 keyword-only argument) ''
                     @ ''were given'')), b)"
proof -
  have "read_registers self addr count b =
      (Inl (TypeError (too_many_positional ''ModbusClientMixin.read_holding_registers'' 2 3 1)), b)"
    using assms by (simp add: read_registers_def read_holding_registers_def numeral_3_eq_3)
  then show ?thesis unfolding positional_count_message by simp
qed

lemma modbus_py_main_read_request:
  "modbus_py_main_read b =
     (Inr (read_reply b (calls b) (ReadHoldingRegisters 0 8 1)),
      b\<lparr>calls := calls b @ [ReadHoldingRegisters 0 8 1]\<rparr>)"
  by (simp add: modbus_py_main_read_def read_holding_registers_def Let_def)

lemma read_registers_disconnected:
  assumes "client self = None"
  shows "read_registers self addr count b =
    (Inl (none_has_no_attribute ''read_holding_registers''), b)"
  using assms by (simp add: read_registers_def)

lemma read_all_temperatures_alt:
  "read_all_temperatures self b =
     (reraise ''Failed to read temperatures: ''
        (case fst (read_registers self 0 8 b) of
           Inl e \<Rightarrow> Inl e
         | Inr registers \<Rightarrow> decode_registers registers),
      snd (read_registers self 0 8 b))"
  by (simp add: read_all_temperatures_def split: prod.splits sum.splits)

lemma read_single_temperature_alt:
  "read_single_temperature self channel b =
     (if \<not> (0 \<le> channel \<and> channel \<le> 7) then (Inl (ValueError ''Channel must be 0-7''), b)
      else (reraise (''Failed to read temperature from channel '' @ str_int channel @ '': '')
              (case fst (read_registers self channel 1 b) of
                 Inl e \<Rightarrow> Inl e
               | Inr [] \<Rightarrow> Inl (IndexError ''list index out of range'')
               | Inr (raw # rest) \<Rightarrow> decode_temperature raw),
            snd (read_registers self channel 1 b)))"
  by (simp add: read_single_temperature_def Let_def split: prod.splits sum.splits list.splits)

lemma read_temperature_corrections_alt:
  "read_temperature_corrections self b =
     (reraise ''Failed to read temperature corrections: ''
        (case fst (read_registers self 0x0008 8 b) of
           Inl e \<Rightarrow> Inl e
         | Inr registers \<Rightarrow> decode_registers registers),
      snd (read_registers self 0x0008 8 b))"
  by (simp add: read_temperature_corrections_def split: prod.splits sum.splits)

lemma set_temperature_correction_valid:
  assumes "0 \<le> channel" "channel \<le> 7"
    and "float_le (float_neg (float_literal (3276 / 10))) v"
    and "float_le v (float_literal (3276 / 10))"
    and "encode_temperature v = Inr raw"
  shows "set_temperature_correction self channel v b =
    (case client self of
       None \<Rightarrow>
         (Inl (Exception (''Failed to set correction for channel '' @ str_int channel @ '': ''
                          @ str (none_has_no_attribute ''write_register''))), b)
     | Some handle \<Rightarrow>
         (case write_reply b (calls b) (WriteRegister (0x0008 + channel) raw (address self)) of
            Raises m \<Rightarrow>
              Inl (Exception (''Failed to set correction for channel '' @ str_int channel
                              @ '': '' @ m))
          | ErrorResponse d \<Rightarrow>
              Inl (Exception (''Failed to set correction for channel '' @ str_int channel
                              @ '': '' @ ''Modbus error: '' @ d))
          | Response ack \<Rightarrow> Inr (),
          b\<lparr>calls := calls b @ [WriteRegister (0x0008 + channel) raw (address self)]\<rparr>))"
  using assms
  by (simp add: set_temperature_correction_def write_register_def reraise_def Let_def
      split: option.splits response.splits)


text \<open>
  \<^bold>\<open>C3.\<close> On a client that holds a transport handle, \<open>read_all_temperatures\<close> issues no
  request at all: it calls \<open>read_holding_registers(0, 8, device_id=...)\<close> with the count
  as a positional argument, the keyword-only signature refuses the call with
  \<open>TypeError\<close>, and the \<open>except\<close> clause raises the plain \<open>Exception\<close>; the bus is left
  as it was, where C3 asks for one request and the eight decoded values. The same
  request with \<open>count=8\<close>, as \<open>main\<close> of \<open>modbus_py.py\<close> writes it, does reach the
  bus as one read of 8 holding registers from address 0, and the list comprehension
  decodes 8 registers one by one, in order: those of scenario A to
  \<open>[25.0, None, -5.0, 0.0, 0.0, 0.0, 0.0, 0.0]\<close>.
\<close>

theorem read_all_temperatures_connected:
  assumes "client self = Some handle"
  shows "read_all_temperatures self b =
      (Inl (Exception (''Failed to read temperatures: ''
         @ ''ModbusClientMixin.read_holding_registers() takes 2 positional arguments but 3 ''
         @ ''positional arguments (and 1 keyword-only argument) were given'')), b)
    \<and> modbus_py_main_read b =
        (Inr (read_reply b (calls b) (ReadHoldingRegisters 0 8 1)),
         b\<lparr>calls := calls b @ [ReadHoldingRegisters 0 8 1]\<rparr>)
    \<and> (\<forall>registers. length registers = 8
           \<and> (\<forall>raw \<in> set registers. 0 \<le> raw \<and> raw \<le> 65535) \<longrightarrow>
         (\<exists>ts. decode_registers registers = Inr ts \<and> length ts = 8
            \<and> (\<forall>i < 8. decode_temperature (registers ! i) = Inr (ts ! i))))
    \<and> decode_registers [250, 32768, 65486, 0, 0, 0, 0, 0] =
         Inr [Some (Float 25), None, Some (Float (- 5)), Some (Float 0), Some (Float 0),
              Some (Float 0), Some (Float 0), Some (Float 0)]"
proof -
  have 1: "read_all_temperatures self b =
      (Inl (Exception (''Failed to read temperatures: ''
         @ ''ModbusClientMixin.read_holding_registers() takes 2 positional arguments but 3 ''
         @ ''positional arguments (and 1 keyword-only argument) were given'')), b)"
    by (simp add: read_all_temperatures_alt read_registers_connected [OF assms] reraise_def)
  have 2: "\<exists>ts. decode_registers registers = Inr ts \<and> length ts = 8
            \<and> (\<forall>i < 8. decode_temperature (registers ! i) = Inr (ts ! i))"
    if "length registers = 8" "\<forall>raw \<in> set registers. 0 \<le> raw \<and> raw \<le> 65535" for registers
    using decode_registers_Inr [OF that(2)] that(1) by auto
  have 3: "decode_registers [250, 32768, 65486, 0, 0, 0, 0, 0] =
         Inr [Some (Float 25), None, Some (Float (- 5)), Some (Float 0), Some (Float 0),
              Some (Float 0), Some (Float 0), Some (Float 0)]"
    by (simp add: decode_25 decode_minus_5 decode_0 decode_sentinel)
  from 1 modbus_py_main_read_request [of b] 2 3 show ?thesis by blast
qed

theorem read_all_temperatures_connected_witness:
  "client connected_client = Some \<lparr>serial_port = ''/dev/ttyUSB0'', serial_baudrate = 9600,
       serial_parity = CHR ''N'', serial_stopbits = 1, serial_bytesize = 8,
       serial_timeout = Float 1\<rparr>
   \<and> read_all_temperatures connected_client (device_bus scenario_registers) =
      (Inl (Exception (''Failed to read temperatures: ''
         @ ''ModbusClientMixin.read_holding_registers() takes 2 positional arguments but 3 ''
         @ ''positional arguments (and 1 keyword-only argument) were given'')),
       device_bus scenario_registers)
   \<and> calls (snd (read_all_temperatures connected_client (device_bus scenario_registers))) = []
   \<and> fst (modbus_py_main_read (device_bus scenario_registers)) =
      Inr (Response [250, 32768, 65486, 0, 0, 0, 0, 0])
   \<and> calls (snd (modbus_py_main_read (device_bus scenario_registers))) =
      [ReadHoldingRegisters 0 8 1]
   \<and> length [250, 32768, 65486, 0, 0, 0, 0, 0 :: int] = 8
   \<and> (\<exists>ts. decode_registers [250, 32768, 65486, 0, 0, 0, 0, 0] = Inr ts \<and> length ts = 8)
   \<and> decode_registers [250, 32768, 65486, 0, 0, 0, 0, 0] =
         Inr [Some (Float 25), None, Some (Float (- 5)), Some (Float 0), Some (Float 0),
              Some (Float 0), Some (Float 0), Some (Float 0)]"
proof -
  let ?b = "device_bus scenario_registers"
  let ?regs = "[250, 32768, 65486, 0, 0, 0, 0, 0 :: int]"
  note t = read_all_temperatures_connected [OF connected_client_simps(1), of ?b]
  have e: "calls ?b = []" by (simp add: device_bus_def)
  have r: "read_reply ?b [] (ReadHoldingRegisters 0 8 1) = Response ?regs"
    by (simp add: device_bus_def scenario_registers_def)
  have a: "read_all_temperatures connected_client ?b =
      (Inl (Exception (''Failed to read temperatures: ''
         @ ''ModbusClientMixin.read_holding_registers() takes 2 positional arguments but 3 ''
         @ ''positional arguments (and 1 keyword-only argument) were given'')), ?b)"
    using t by blast
  have m: "modbus_py_main_read ?b =
        (Inr (read_reply ?b (calls ?b) (ReadHoldingRegisters 0 8 1)),
         ?b\<lparr>calls := calls ?b @ [ReadHoldingRegisters 0 8 1]\<rparr>)"
    using t by blast
  have h: "length ?regs = 8" "\<forall>raw \<in> set ?regs. 0 \<le> raw \<and> raw \<le> 65535" by simp_all
  have d: "\<exists>ts. decode_registers ?regs = Inr ts \<and> length ts = 8"
    using t h by blast
  have x: "decode_registers ?regs =
         Inr [Some (Float 25), None, Some (Float (- 5)), Some (Float 0), Some (Float 0),
              Some (Float 0), Some (Float 0), Some (Float 0)]"
    using t by blast
  show ?thesis using connected_client_simps(1) a m d x by (simp add: e r)
qed

text \<open>
  \<^bold>\<open>C4.\<close> On a client that holds a transport handle, for every channel in \<open>[0, 7]\<close> and
  every float \<open>v\<close> with \<open>-327.6 <= v <= 327.6\<close>, \<open>set_temperature_correction\<close> sends the
  bus exactly one request: a write of \<open>encode_temperature(v)\<close> to register
  \<open>0x0008 + channel\<close> of the client's device address; it returns normally when the bus
  acknowledges. Channel 3 with \<open>1.5\<close> writes the value 15 to register \<open>0x000B\<close>.
\<close>

theorem set_temperature_correction_connected:
  assumes "client self = Some handle"
    and "0 \<le> channel" and "channel \<le> 7"
    and "float_le (float_neg (float_literal (3276 / 10))) v"
    and "float_le v (float_literal (3276 / 10))"
  shows "\<exists>raw. encode_temperature v = Inr raw
      \<and> calls (snd (set_temperature_correction self channel v b)) =
          calls b @ [WriteRegister (0x0008 + channel) raw (address self)]
      \<and> (write_reply b (calls b) (WriteRegister (0x0008 + channel) raw (address self))
            = Response ()
          \<longrightarrow> fst (set_temperature_correction self channel v b) = Inr ())
      \<and> (channel = 3 \<and> v = float_literal (3 / 2) \<longrightarrow>
            WriteRegister (0x0008 + channel) raw (address self)
              = WriteRegister 0x000B 15 (address self))"
proof -
  from encode_temperature_correction_range [OF assms(4,5)]
  obtain raw where raw: "encode_temperature v = Inr raw" by blast
  note s = set_temperature_correction_valid [OF assms(2-5) raw, of self b]
  have 1: "calls (snd (set_temperature_correction self channel v b)) =
          calls b @ [WriteRegister (0x0008 + channel) raw (address self)]"
    unfolding s using assms(1) by simp
  have 2: "fst (set_temperature_correction self channel v b) = Inr ()"
    if "write_reply b (calls b) (WriteRegister (0x0008 + channel) raw (address self))
            = Response ()"
    unfolding s using assms(1) that by simp
  have 3: "WriteRegister (0x0008 + channel) raw (address self)
              = WriteRegister 0x000B 15 (address self)"
    if "channel = 3 \<and> v = float_literal (3 / 2)"
    using that raw encode_1_5 by simp
  from raw 1 2 3 show ?thesis by blast
qed

theorem set_temperature_correction_connected_witness:
  "client connected_client = Some \<lparr>serial_port = ''/dev/ttyUSB0'', serial_baudrate = 9600,
       serial_parity = CHR ''N'', serial_stopbits = 1, serial_bytesize = 8,
       serial_timeout = Float 1\<rparr>
   \<and> (0::int) \<le> 3 \<and> (3::int) \<le> 7
   \<and> float_le (float_neg (float_literal (3276 / 10))) (float_literal (3 / 2))
   \<and> float_le (float_literal (3 / 2)) (float_literal (3276 / 10))
   \<and> calls (snd (set_temperature_correction connected_client 3 (float_literal (3 / 2))
         (device_bus scenario_registers))) = [WriteRegister 0x000B 15 1]
   \<and> fst (set_temperature_correction connected_client 3 (float_literal (3 / 2))
         (device_bus scenario_registers)) = Inr ()"
proof -
  have h: "(0::int) \<le> 3" "(3::int) \<le> 7"
    "float_le (float_neg (float_literal (3276 / 10))) (float_literal (3 / 2))"
    "float_le (float_literal (3 / 2)) (float_literal (3276 / 10))"
    unfolding float_literal_327_6 float_literal_1_5 by simp_all
  have e: "calls (device_bus scenario_registers) = []"
    and w: "write_reply (device_bus scenario_registers) hist c = Response ()" for hist c
    by (simp_all add: device_bus_def)
  from set_temperature_correction_connected [OF connected_client_simps(1) h,
      of "device_bus scenario_registers"]
  obtain raw where "encode_temperature (float_literal (3 / 2)) = Inr raw"
    and "calls (snd (set_temperature_correction connected_client 3 (float_literal (3 / 2))
         (device_bus scenario_registers))) = [WriteRegister (0x0008 + 3) raw 1]"
    and "fst (set_temperature_correction connected_client 3 (float_literal (3 / 2))
         (device_bus scenario_registers)) = Inr ()"
    unfolding e w connected_client_simps(2) by auto
  then show ?thesis using connected_client_simps(1) h by (simp add: encode_1_5)
qed

text \<open>
  \<^bold>\<open>C5.\<close> With a channel outside \<open>[0, 7]\<close>, \<open>read_single_temperature\<close> raises
  \<open>ValueError\<close> (the specification's InvalidArgument) and leaves the bus as it was. With a
  channel in \<open>[0, 7]\<close>, on a client that holds a transport handle, it issues no request
  either: \<open>read_holding_registers(channel, 1, device_id=...)\<close> passes the count as a
  positional argument, the call is refused with \<open>TypeError\<close>, and the \<open>except\<close>
  clause raises the plain \<open>Exception\<close>, where C5 asks for one request for 1 register at
  the address of the channel and its decoded value.
\<close>

theorem read_single_temperature_channel:
  "(\<not> (0 \<le> channel \<and> channel \<le> 7) \<longrightarrow>
      (\<exists>e. read_single_temperature self channel b = (Inl e, b)
         \<and> e = ValueError ''Channel must be 0-7'' \<and> failure_of e = Some InvalidArgument))
   \<and> (0 \<le> channel \<and> channel \<le> 7 \<and> client self = Some handle \<longrightarrow>
        read_single_temperature self channel b =
          (Inl (Exception (''Failed to read temperature from channel '' @ str_int channel
             @ '': ''
             @ ''ModbusClientMixin.read_holding_registers() takes 2 positional arguments but 3 ''
             @ ''positional arguments (and 1 keyword-only argument) were given'')), b))"
proof -
  have 1: "\<exists>e. read_single_temperature self channel b = (Inl e, b)
         \<and> e = ValueError ''Channel must be 0-7'' \<and> failure_of e = Some InvalidArgument"
    if "\<not> (0 \<le> channel \<and> channel \<le> 7)"
    using that by (simp add: read_single_temperature_alt)
  have 2: "read_single_temperature self channel b =
          (Inl (Exception (''Failed to read temperature from channel '' @ str_int channel
             @ '': ''
             @ ''ModbusClientMixin.read_holding_registers() takes 2 positional arguments but 3 ''
             @ ''positional arguments (and 1 keyword-only argument) were given'')), b)"
    if "0 \<le> channel \<and> channel \<le> 7 \<and> client self = Some handle"
    using that read_registers_connected [of self handle channel 1 b]
    by (simp add: read_single_temperature_alt reraise_def)
  from 1 2 show ?thesis by blast
qed

theorem read_single_temperature_channel_witness:
  "\<not> (0 \<le> (8::int) \<and> (8::int) \<le> 7) \<and> \<not> (0 \<le> (- 1::int) \<and> (- 1::int) \<le> 7)
   \<and> read_single_temperature connected_client 8 (device_bus scenario_registers) =
       (Inl (ValueError ''Channel must be 0-7''), device_bus scenario_registers)
   \<and> read_single_temperature connected_client (- 1) (device_bus scenario_registers) =
       (Inl (ValueError ''Channel must be 0-7''), device_bus scenario_registers)
   \<and> (0::int) \<le> 2 \<and> (2::int) \<le> 7
   \<and> client connected_client = Some \<lparr>serial_port = ''/dev/ttyUSB0'', serial_baudrate = 9600,
       serial_parity = CHR ''N'', serial_stopbits = 1, serial_bytesize = 8,
       serial_timeout = Float 1\<rparr>
   \<and> read_single_temperature connected_client 2 (device_bus scenario_registers) =
       (Inl (Exception (''Failed to read temperature from channel 2: ''
          @ ''ModbusClientMixin.read_holding_registers() takes 2 positional arguments but 3 ''
          @ ''positional arguments (and 1 keyword-only argument) were given'')),
        device_bus scenario_registers)
   \<and> calls (snd (read_single_temperature connected_client 2 (device_bus scenario_registers)))
        = []"
proof -
  let ?b = "device_bus scenario_registers"
  let ?h = "\<lparr>serial_port = ''/dev/ttyUSB0'', serial_baudrate = 9600,
       serial_parity = CHR ''N'', serial_stopbits = 1, serial_bytesize = 8,
       serial_timeout = Float 1\<rparr>"
  have e: "calls ?b = []" by (simp add: device_bus_def)
  have s: "str_int 2 = ''2''" by code_simp
  have a: "read_single_temperature connected_client 8 ?b = (Inl (ValueError ''Channel must be 0-7''), ?b)"
    using read_single_temperature_channel [of 8 connected_client ?b ?h] by simp
  have b: "read_single_temperature connected_client (- 1) ?b = (Inl (ValueError ''Channel must be 0-7''), ?b)"
    using read_single_temperature_channel [of "- 1" connected_client ?b ?h] by simp
  have c: "read_single_temperature connected_client 2 ?b =
       (Inl (Exception (''Failed to read temperature from channel 2: ''
          @ ''ModbusClientMixin.read_holding_registers() takes 2 positional arguments but 3 ''
          @ ''positional arguments (and 1 keyword-only argument) were given'')), ?b)"
    using read_single_temperature_channel [of 2 connected_client ?b ?h]
    by (simp add: connected_client_simps s)
  from a b c connected_client_simps(1) show ?thesis by (simp add: e)
qed

text \<open>
  \<^bold>\<open>C6.\<close> With a correction that does not satisfy \<open>-327.6 <= correction <= 327.6\<close>
  (a larger or smaller float, an infinity or NaN), \<open>set_temperature_correction\<close> raises
  \<open>ValueError\<close> (the specification's InvalidArgument) and leaves the bus as it was; when
  the channel is valid, the message is the one that states the range -327.6 to +327.6.
  The floats \<open>327.7\<close> and \<open>-327.7\<close> are outside the range.
\<close>

theorem set_temperature_correction_out_of_range:
  assumes "\<not> (float_le (float_neg (float_literal (3276 / 10))) v
              \<and> float_le v (float_literal (3276 / 10)))"
  shows "(\<exists>e. set_temperature_correction self channel v b = (Inl e, b)
            \<and> failure_of e = Some InvalidArgument
            \<and> (0 \<le> channel \<and> channel \<le> 7 \<longrightarrow>
                 e = ValueError (''Correction must be between -327.6 and +327.6 ''
                                 @ [CHR 0xB0] @ ''C'')))
    \<and> \<not> float_le (float_literal (3277 / 10)) (float_literal (3276 / 10))
    \<and> \<not> float_le (float_neg (float_literal (3276 / 10)))
                   (float_neg (float_literal (3277 / 10)))"
proof -
  have 1: "\<exists>e. set_temperature_correction self channel v b = (Inl e, b)
            \<and> failure_of e = Some InvalidArgument
            \<and> (0 \<le> channel \<and> channel \<le> 7 \<longrightarrow>
                 e = ValueError (''Correction must be between -327.6 and +327.6 ''
                                 @ [CHR 0xB0] @ ''C''))"
    using assms by (cases "0 \<le> channel \<and> channel \<le> 7")
      (auto simp: set_temperature_correction_def)
  have 2: "\<not> float_le (float_literal (3277 / 10)) (float_literal (3276 / 10))"
    "\<not> float_le (float_neg (float_literal (3276 / 10))) (float_neg (float_literal (3277 / 10)))"
    unfolding float_literal_327_6 float_literal_327_7 by simp_all
  from 1 2 show ?thesis by blast
qed

theorem set_temperature_correction_out_of_range_witness:
  "\<not> (float_le (float_neg (float_literal (3276 / 10))) (float_literal (3277 / 10))
       \<and> float_le (float_literal (3277 / 10)) (float_literal (3276 / 10)))
   \<and> \<not> (float_le (float_neg (float_literal (3276 / 10))) (float_neg (float_literal (3277 / 10)))
       \<and> float_le (float_neg (float_literal (3277 / 10))) (float_literal (3276 / 10)))
   \<and> \<not> (float_le (float_neg (float_literal (3276 / 10))) NaN
       \<and> float_le NaN (float_literal (3276 / 10)))
   \<and> (0::int) \<le> 0 \<and> (0::int) \<le> 7
   \<and> set_temperature_correction connected_client 0 (float_literal (3277 / 10))
        (device_bus scenario_registers) =
      (Inl (ValueError (''Correction must be between -327.6 and +327.6 '' @ [CHR 0xB0] @ ''C'')),
       device_bus scenario_registers)
   \<and> set_temperature_correction connected_client 0 (float_neg (float_literal (3277 / 10)))
        (device_bus scenario_registers) =
      (Inl (ValueError (''Correction must be between -327.6 and +327.6 '' @ [CHR 0xB0] @ ''C'')),
       device_bus scenario_registers)
   \<and> set_temperature_correction connected_client 0 NaN (device_bus scenario_registers) =
      (Inl (ValueError (''Correction must be between -327.6 and +327.6 '' @ [CHR 0xB0] @ ''C'')),
       device_bus scenario_registers)"
proof -
  have h1: "\<not> (float_le (float_neg (float_literal (3276 / 10))) (float_literal (3277 / 10))
       \<and> float_le (float_literal (3277 / 10)) (float_literal (3276 / 10)))"
    unfolding float_literal_327_6 float_literal_327_7 by simp
  have h2: "\<not> (float_le (float_neg (float_literal (3276 / 10)))
                  (float_neg (float_literal (3277 / 10)))
       \<and> float_le (float_neg (float_literal (3277 / 10))) (float_literal (3276 / 10)))"
    unfolding float_literal_327_6 float_literal_327_7 by simp
  have h3: "\<not> (float_le (float_neg (float_literal (3276 / 10))) NaN
       \<and> float_le NaN (float_literal (3276 / 10)))"
    by simp
  from set_temperature_correction_out_of_range [OF h1, of connected_client 0
      "device_bus scenario_registers"]
    set_temperature_correction_out_of_range [OF h2, of connected_client 0
      "device_bus scenario_registers"]
    set_temperature_correction_out_of_range [OF h3, of connected_client 0
      "device_bus scenario_registers"]
    h1 h2 h3
  show ?thesis by auto
qed

lemma failed_client_simps:
  "client failed_client = Some \<lparr>serial_port = ''/dev/ttyUSB0'', serial_baudrate = 9600,
       serial_parity = CHR ''N'', serial_stopbits = 1, serial_bytesize = 8,
       serial_timeout = Float 1\<rparr>"
  "address failed_client = 1"
  "fst (connect fresh_client (ConnectReturns False)) = False"
  by (simp_all add: failed_client_def fresh_client_def connect_def init_def)

lemma connect_failed_handle:
  assumes "outcome = ConnectRaises m \<or> outcome = ConnectReturns False"
  shows "fst (connect self outcome) = False"
    and "\<exists>handle. client (snd (connect self outcome)) = Some handle"
    and "address (snd (connect self outcome)) = address self"
  using assms by (auto simp: connect_def)

text \<open>
  \<^bold>\<open>C7\<close> (as amended). While the transport handle is still \<open>None\<close> (\<open>connect()\<close> was
  not called yet, or the constructor of the handle raised), each of the four operations,
  called with valid arguments, fails with the plain \<open>Exception\<close> of its \<open>except\<close>
  clause, whose text ends in the \<open>AttributeError\<close> of the missing handle, and leaves the
  bus as it was. This is the class that a transport failure is reported with; the code has
  no failure of its own for a client that is not connected. Once \<open>connect()\<close> has stored
  the handle, a \<open>connect()\<close> that raised or returned false holds nothing back:
  \<open>set_temperature_correction\<close> sends its one write request as on a connected client,
  and returns normally when the bus acknowledges it.
\<close>

theorem disconnected_operations_fail:
  "(client self = None \<longrightarrow>
      read_all_temperatures self b =
        (Inl (Exception (''Failed to read temperatures: ''
                         @ str (none_has_no_attribute ''read_holding_registers''))), b)
      \<and> read_temperature_corrections self b =
        (Inl (Exception (''Failed to read temperature corrections: ''
                         @ str (none_has_no_attribute ''read_holding_registers''))), b)
      \<and> (0 \<le> channel \<and> channel \<le> 7 \<longrightarrow>
          read_single_temperature self channel b =
            (Inl (Exception (''Failed to read temperature from channel '' @ str_int channel
                             @ '': '' @ str (none_has_no_attribute ''read_holding_registers''))),
             b))
      \<and> (0 \<le> channel \<and> channel \<le> 7
          \<and> float_le (float_neg (float_literal (3276 / 10))) v
          \<and> float_le v (float_literal (3276 / 10)) \<longrightarrow>
          set_temperature_correction self channel v b =
            (Inl (Exception (''Failed to set correction for channel '' @ str_int channel
                             @ '': '' @ str (none_has_no_attribute ''write_register''))), b))
      \<and> fst (connect self (ConstructorRaises m)) = False
      \<and> client (snd (connect self (ConstructorRaises m))) = None)
    \<and> (\<forall>t. failure_of (Exception t) = Some TransportError)
    \<and> (outcome = ConnectRaises m \<or> outcome = ConnectReturns False \<longrightarrow>
        fst (connect self outcome) = False
        \<and> (\<exists>handle. client (snd (connect self outcome)) = Some handle)
        \<and> (0 \<le> channel \<and> channel \<le> 7
            \<and> float_le (float_neg (float_literal (3276 / 10))) v
            \<and> float_le v (float_literal (3276 / 10)) \<longrightarrow>
            (\<exists>raw. encode_temperature v = Inr raw
               \<and> calls (snd (set_temperature_correction (snd (connect self outcome))
                               channel v b)) =
                   calls b @ [WriteRegister (0x0008 + channel) raw (address self)]
               \<and> (write_reply b (calls b)
                      (WriteRegister (0x0008 + channel) raw (address self)) = Response ()
                   \<longrightarrow> fst (set_temperature_correction (snd (connect self outcome))
                               channel v b) = Inr ()))))"
proof -
  have A: "read_all_temperatures self b =
        (Inl (Exception (''Failed to read temperatures: ''
                         @ str (none_has_no_attribute ''read_holding_registers''))), b)
      \<and> read_temperature_corrections self b =
        (Inl (Exception (''Failed to read temperature corrections: ''
                         @ str (none_has_no_attribute ''read_holding_registers''))), b)
      \<and> (0 \<le> channel \<and> channel \<le> 7 \<longrightarrow>
          read_single_temperature self channel b =
            (Inl (Exception (''Failed to read temperature from channel '' @ str_int channel
                             @ '': '' @ str (none_has_no_attribute ''read_holding_registers''))),
             b))
      \<and> (0 \<le> channel \<and> channel \<le> 7
          \<and> float_le (float_neg (float_literal (3276 / 10))) v
          \<and> float_le v (float_literal (3276 / 10)) \<longrightarrow>
          set_temperature_correction self channel v b =
            (Inl (Exception (''Failed to set correction for channel '' @ str_int channel
                             @ '': '' @ str (none_has_no_attribute ''write_register''))), b))
      \<and> fst (connect self (ConstructorRaises m)) = False
      \<and> client (snd (connect self (ConstructorRaises m))) = None"
    if none: "client self = None"
  proof -
    note rd = read_registers_disconnected [OF none]
    have 1: "read_all_temperatures self b =
        (Inl (Exception (''Failed to read temperatures: ''
                         @ str (none_has_no_attribute ''read_holding_registers''))), b)"
      by (simp add: read_all_temperatures_alt rd reraise_def)
    have 2: "read_temperature_corrections self b =
        (Inl (Exception (''Failed to read temperature corrections: ''
                         @ str (none_has_no_attribute ''read_holding_registers''))), b)"
      by (simp add: read_temperature_corrections_alt rd reraise_def)
    have 3: "read_single_temperature self channel b =
            (Inl (Exception (''Failed to read temperature from channel '' @ str_int channel
                             @ '': '' @ str (none_has_no_attribute ''read_holding_registers''))),
             b)"
      if "0 \<le> channel \<and> channel \<le> 7"
      using that by (simp add: read_single_temperature_alt rd reraise_def)
    have 4: "set_temperature_correction self channel v b =
            (Inl (Exception (''Failed to set correction for channel '' @ str_int channel
                             @ '': '' @ str (none_has_no_attribute ''write_register''))), b)"
      if h: "0 \<le> channel \<and> channel \<le> 7
          \<and> float_le (float_neg (float_literal (3276 / 10))) v
          \<and> float_le v (float_literal (3276 / 10))"
    proof -
      from h encode_temperature_correction_range [of v]
      obtain r where "encode_temperature v = Inr (if r < 0 then r + 65536 else r)" by blast
      then show ?thesis
        using set_temperature_correction_valid
          [of channel v "if r < 0 then r + 65536 else r" self b] h none by simp
    qed
    have 5: "fst (connect self (ConstructorRaises m)) = False"
      "client (snd (connect self (ConstructorRaises m))) = None"
      using none by (simp_all add: connect_def)
    from 1 2 3 4 5 show ?thesis by blast
  qed
  have B: "\<forall>t. failure_of (Exception t) = Some TransportError" by simp
  have C: "fst (connect self outcome) = False
        \<and> (\<exists>handle. client (snd (connect self outcome)) = Some handle)
        \<and> (0 \<le> channel \<and> channel \<le> 7
            \<and> float_le (float_neg (float_literal (3276 / 10))) v
            \<and> float_le v (float_literal (3276 / 10)) \<longrightarrow>
            (\<exists>raw. encode_temperature v = Inr raw
               \<and> calls (snd (set_temperature_correction (snd (connect self outcome))
                               channel v b)) =
                   calls b @ [WriteRegister (0x0008 + channel) raw (address self)]
               \<and> (write_reply b (calls b)
                      (WriteRegister (0x0008 + channel) raw (address self)) = Response ()
                   \<longrightarrow> fst (set_temperature_correction (snd (connect self outcome))
                               channel v b) = Inr ())))"
    if o: "outcome = ConnectRaises m \<or> outcome = ConnectReturns False"
  proof -
    note c = connect_failed_handle [OF o, of self]
    from c(2) obtain handle where hd: "client (snd (connect self outcome)) = Some handle"
      by blast
    have w: "\<exists>raw. encode_temperature v = Inr raw
               \<and> calls (snd (set_temperature_correction (snd (connect self outcome))
                               channel v b)) =
                   calls b @ [WriteRegister (0x0008 + channel) raw (address self)]
               \<and> (write_reply b (calls b)
                      (WriteRegister (0x0008 + channel) raw (address self)) = Response ()
                   \<longrightarrow> fst (set_temperature_correction (snd (connect self outcome))
                               channel v b) = Inr ())"
      if h: "0 \<le> channel \<and> channel \<le> 7
            \<and> float_le (float_neg (float_literal (3276 / 10))) v
            \<and> float_le v (float_literal (3276 / 10))"
    proof -
      from h encode_temperature_correction_range [of v]
      obtain r where "encode_temperature v = Inr (if r < 0 then r + 65536 else r)" by blast
      then obtain raw where raw: "encode_temperature v = Inr raw" by blast
      have s: "set_temperature_correction (snd (connect self outcome)) channel v b =
          (case write_reply b (calls b) (WriteRegister (0x0008 + channel) raw (address self)) of
             Raises m \<Rightarrow>
               Inl (Exception (''Failed to set correction for channel '' @ str_int channel
                               @ '': '' @ m))
           | ErrorResponse d \<Rightarrow>
               Inl (Exception (''Failed to set correction for channel '' @ str_int channel
                               @ '': '' @ ''Modbus error: '' @ d))
           | Response ack \<Rightarrow> Inr (),
           b\<lparr>calls := calls b @ [WriteRegister (0x0008 + channel) raw (address self)]\<rparr>)"
        using set_temperature_correction_valid
          [of channel v raw "snd (connect self outcome)" b] h raw hd c(3) by simp
      show ?thesis using raw by (intro exI [of _ raw]) (simp add: s)
    qed
    from c(1) c(2) w show ?thesis by blast
  qed
  from A B C show ?thesis by blast
qed

theorem disconnected_operations_fail_witness:
  "client fresh_client = None \<and> (0::int) \<le> 3 \<and> (3::int) \<le> 7
   \<and> float_le (float_neg (float_literal (3276 / 10))) (float_literal (3 / 2))
   \<and> float_le (float_literal (3 / 2)) (float_literal (3276 / 10))
   \<and> read_all_temperatures fresh_client (device_bus scenario_registers) =
      (Inl (Exception (''Failed to read temperatures: ''
                       @ str (none_has_no_attribute ''read_holding_registers''))),
       device_bus scenario_registers)
   \<and> read_temperature_corrections fresh_client (device_bus scenario_registers) =
      (Inl (Exception (''Failed to read temperature corrections: ''
                       @ str (none_has_no_attribute ''read_holding_registers''))),
       device_bus scenario_registers)
   \<and> read_single_temperature fresh_client 3 (device_bus scenario_registers) =
      (Inl (Exception (''Failed to read temperature from channel 3: ''
                       @ str (none_has_no_attribute ''read_holding_registers''))),
       device_bus scenario_registers)
   \<and> set_temperature_correction fresh_client 3 (float_literal (3 / 2))
        (device_bus scenario_registers) =
      (Inl (Exception (''Failed to set correction for channel 3: ''
                       @ str (none_has_no_attribute ''write_register''))),
       device_bus scenario_registers)
   \<and> client (snd (connect fresh_client (ConstructorRaises ''could not open port''))) = None
   \<and> fst (connect fresh_client (ConnectReturns False)) = False
   \<and> calls (snd (set_temperature_correction (snd (connect fresh_client (ConnectReturns False)))
        3 (float_literal (3 / 2)) (device_bus scenario_registers))) =
      [WriteRegister 0x000B 15 1]
   \<and> write_reply (device_bus scenario_registers) (calls (device_bus scenario_registers))
        (WriteRegister 0x000B 15 1) = Response ()
   \<and> fst (set_temperature_correction (snd (connect fresh_client (ConnectReturns False)))
        3 (float_literal (3 / 2)) (device_bus scenario_registers)) = Inr ()"
proof -
  let ?b = "device_bus scenario_registers"
  let ?v = "float_literal (3 / 2)"
  let ?f = "snd (connect fresh_client (ConnectReturns False))"
  have h: "(0::int) \<le> 3 \<and> (3::int) \<le> 7
      \<and> float_le (float_neg (float_literal (3276 / 10))) ?v
      \<and> float_le ?v (float_literal (3276 / 10))"
    unfolding float_literal_327_6 float_literal_1_5 by simp
  have o: "ConnectReturns False = ConnectRaises ''could not open port''
        \<or> ConnectReturns False = ConnectReturns False" by simp
  have s: "str_int 3 = ''3''" by code_simp
  have e: "calls ?b = []"
    and w: "write_reply ?b hist c = Response ()" for hist c
    by (simp_all add: device_bus_def)
  note t = disconnected_operations_fail [where self = fresh_client and channel = 3
      and v = ?v and b = ?b and outcome = "ConnectReturns False"
      and m = "''could not open port''"]
  from t fresh_client_simps(1) h
  have a: "read_all_temperatures fresh_client ?b =
      (Inl (Exception (''Failed to read temperatures: ''
                       @ str (none_has_no_attribute ''read_holding_registers''))), ?b)"
    and b: "read_temperature_corrections fresh_client ?b =
      (Inl (Exception (''Failed to read temperature corrections: ''
                       @ str (none_has_no_attribute ''read_holding_registers''))), ?b)"
    and c: "read_single_temperature fresh_client 3 ?b =
      (Inl (Exception (''Failed to read temperature from channel '' @ str_int 3 @ '': ''
                       @ str (none_has_no_attribute ''read_holding_registers''))), ?b)"
    and d: "set_temperature_correction fresh_client 3 ?v ?b =
      (Inl (Exception (''Failed to set correction for channel '' @ str_int 3 @ '': ''
                       @ str (none_has_no_attribute ''write_register''))), ?b)"
    and n: "client (snd (connect fresh_client (ConstructorRaises ''could not open port''))) = None"
    by blast+
  from t o h obtain raw where f: "fst (connect fresh_client (ConnectReturns False)) = False"
    and raw: "encode_temperature ?v = Inr raw"
    and g: "calls (snd (set_temperature_correction ?f 3 ?v ?b)) =
        calls ?b @ [WriteRegister (0x0008 + 3) raw (address fresh_client)]"
    and k: "write_reply ?b (calls ?b) (WriteRegister (0x0008 + 3) raw (address fresh_client))
          = Response () \<longrightarrow> fst (set_temperature_correction ?f 3 ?v ?b) = Inr ()"
    by blast
  from raw have r15: "raw = 15" by (simp add: encode_1_5)
  have g': "calls (snd (set_temperature_correction ?f 3 ?v ?b)) = [WriteRegister 0x000B 15 1]"
    using g by (simp add: r15 e fresh_client_simps)
  have k': "fst (set_temperature_correction ?f 3 ?v ?b) = Inr ()"
    using k by (simp add: w)
  show ?thesis
    using fresh_client_simps(1) h a b c d n o f g' k' by (simp add: s w)
qed

text \<open>
  \<^bold>\<open>C7\<close> as stated asks, of every client on which \<open>connect()\<close> has not succeeded, for a
  failure of the kind NotConnected and no transport call. A freshly constructed client
  fails with the plain \<open>Exception\<close> instead, which is not of that kind; and a client
  whose \<open>connect()\<close> returned false does not fail at all when the bus answers: its write
  of \<open>1.5\<close> to channel 3 is sent and acknowledged.
\<close>

theorem disconnected_failure_counterexample:
  "fst (read_all_temperatures fresh_client (device_bus scenario_registers)) =
     Inl (Exception (''Failed to read temperatures: ''
                     @ str (none_has_no_attribute ''read_holding_registers'')))
   \<and> failure_of (Exception (''Failed to read temperatures: ''
                     @ str (none_has_no_attribute ''read_holding_registers'')))
       \<noteq> Some NotConnected
   \<and> fst (connect fresh_client (ConnectReturns False)) = False
   \<and> failed_client = snd (connect fresh_client (ConnectReturns False))
   \<and> fst (set_temperature_correction failed_client 3 (float_literal (3 / 2))
            (device_bus scenario_registers)) = Inr ()
   \<and> calls (snd (set_temperature_correction failed_client 3 (float_literal (3 / 2))
            (device_bus scenario_registers))) = [WriteRegister 0x000B 15 1]"
proof -
  let ?b = "device_bus scenario_registers"
  have h: "(0::int) \<le> 3" "(3::int) \<le> 7"
    "float_le (float_neg (float_literal (3276 / 10))) (float_literal (3 / 2))"
    "float_le (float_literal (3 / 2)) (float_literal (3276 / 10))"
    unfolding float_literal_327_6 float_literal_1_5 by simp_all
  have e: "calls ?b = []"
    and w: "write_reply ?b hist c = Response ()" for hist c
    by (simp_all add: device_bus_def)
  have 1: "fst (read_all_temperatures fresh_client ?b) =
     Inl (Exception (''Failed to read temperatures: ''
                     @ str (none_has_no_attribute ''read_holding_registers'')))"
    by (simp add: read_all_temperatures_alt read_registers_disconnected fresh_client_simps
        reraise_def)
  have 2: "set_temperature_correction failed_client 3 (float_literal (3 / 2)) ?b =
      (Inr (), ?b\<lparr>calls := [WriteRegister 0x000B 15 1]\<rparr>)"
    using set_temperature_correction_valid [OF h encode_1_5, of failed_client ?b]
    by (simp add: failed_client_simps e w)
  show ?thesis using 1 2 by (simp add: failed_client_simps(3) failed_client_def)
qed

end
